theory Spec2Isabelle
  imports Complex_Main
begin

section \<open>SuperSelect: the layer-selection commands of the canvas tool\<close>

text \<open>
  The commands of the SuperSelect module (\<open>clickCommand\<close>, \<open>doubleClickCommand\<close>,
  \<open>backOutCommand\<close>, \<open>nextSiblingCommand\<close>, \<open>diveInCommand\<close>, \<open>editLayerCommand\<close>,
  \<open>marqueeSelectCommand\<close>) and their private helpers, as functions from the document
  model and the answers of the host process to the list of effects a command issues and
  the settlement of the promise it returns.

  The source's private helpers start with an underscore (\<open>_getHitLayerIDs\<close>); here they
  carry the same name without it. Fields that several objects share in the source
  (\<open>layer.id\<close> and \<open>doc.id\<close>, \<open>layer.selected\<close> and \<open>layerTree.selected\<close>) are prefixed
  with the name of their record.
\<close>

subsection \<open>The document model\<close>

text \<open>
  A JavaScript number is a double: a finite value, which is a rational, an infinity or
  NaN (the sign of zero plays no part in the module). The module multiplies two scale
  factors and takes the midpoint of two edges; what a sum, a product or a quotient of
  doubles rounds or overflows to is IEEE arithmetic, which the environment below
  supplies as \<open>num_add\<close>, \<open>num_mul\<close> and \<open>num_div\<close>.
\<close>

datatype num = Finite rat | PlusInfinity | MinusInfinity | NaN

text \<open>
  \<open>layer.layerKinds\<close>: the module names four of the kinds; the table itself belongs to
  the layer model, so every other kind is \<open>OTHERKIND\<close> with its number.
\<close>

datatype layerKind = VECTOR | TEXT | SMARTOBJECT | GROUPEND | OTHERKIND nat

record bounds =
  bounds_left :: num
  bounds_top :: num
  bounds_right :: num
  bounds_bottom :: num

text \<open>The properties of a layer that the module reads.\<close>

record layer =
  layer_id :: nat
  layer_kind :: layerKind
  layer_selected :: bool
  layer_locked :: bool
  layer_superSelectable :: bool
  layer_isArtboard :: bool
  layer_isBackground :: bool
  layer_bounds :: "bounds option"

text \<open>
  The layer structure of a document. Its class is not part of the module: the properties
  and methods the module calls are the fields of this record, so a command is a function
  of what they return. \<open>parent\<close> returns null for a root layer, \<open>byID\<close> returns undefined
  for an unknown ID and \<open>childBounds\<close> may return nothing: these are \<open>None\<close>.
\<close>

record layerTree =
  tree_all :: "layer list"
  tree_top :: "layer list"
  tree_selected :: "layer list"
  tree_selectable :: "layer list"
  tree_leaves :: "layer list"
  tree_children :: "layer \<Rightarrow> layer list"
  tree_parent :: "layer \<Rightarrow> layer option"
  tree_siblings :: "layer \<Rightarrow> layer list"
  tree_ancestors :: "layer \<Rightarrow> layer list"
  tree_byID :: "nat \<Rightarrow> layer option"
  tree_childBounds :: "layer \<Rightarrow> bounds option"

record document =
  doc_id :: nat
  doc_layers :: layerTree

subsection \<open>Promises and effects\<close>

text \<open>How a promise settles: resolved with a value, or rejected.\<close>

datatype 'a settled = Resolved 'a | Rejected

text \<open>
  The second argument of \<open>layerActions.select\<close>: one layer or a list of layers. A layer
  that a lookup did not find is undefined in the source, \<open>None\<close> here.
\<close>

datatype selectSpec = OneLayer "layer option" | LayerList "layer option list"

datatype eventKind = LEFT_MOUSE_DOWN

text \<open>
  What a command issues, in the order of issue:
  \<^item> \<open>LogSuperselect name\<close>: \<open>_logSuperselect(name)\<close>;
  \<^item> \<open>Dispatch_SUPERSELECT_MARQUEE enabled\<close>: \<open>this.dispatch(events.ui.SUPERSELECT_MARQUEE, {enabled})\<close>;
  \<^item> \<open>Select doc spec modifier\<close>: \<open>this.transfer(layerActions.select, doc, spec, modifier)\<close>,
    the modifier \<open>None\<close> when the call passes none;
  \<^item> \<open>DeselectAll doc\<close>: \<open>this.transfer(layerActions.deselectAll, doc)\<close>;
  \<^item> \<open>EditLayer doc layer x y\<close>: \<open>this.transfer(editLayer, doc, layer, x, y)\<close>;
  \<^item> \<open>ToolSelect id\<close>: \<open>this.transfer(toolActions.select, tool)\<close> for the tool with that ID;
  \<^item> \<open>PostEvent kind x y\<close>: \<open>adapterOS.postEvent({eventKind, location: [x, y]})\<close>;
  \<^item> \<open>Play_placedLayerEditContents\<close>: \<open>descriptor.play("placedLayerEditContents", ...)\<close>;
  \<^item> \<open>UpdateDocument\<close>: \<open>this.transfer(documentActions.updateDocument)\<close>.

  The actions a command transfers to belong to the action framework. A command's value
  follows the run in which each transferred action resolves: its effects, and how its
  promise then settles. The two calls to the host process whose failure the module
  handles itself (the hit test and \<open>placedLayerEditContents\<close>) are answered by the
  environment below and may fail.
\<close>

datatype effect =
    LogSuperselect string
  | Dispatch_SUPERSELECT_MARQUEE bool
  | Select document selectSpec "string option"
  | DeselectAll document
  | EditLayer document layer "num option" "num option"
  | ToolSelect string
  | PostEvent eventKind num num
  | Play_placedLayerEditContents
  | UpdateDocument

type_synonym 'a outcome = "effect list \<times> 'a settled"

subsection \<open>The environment: the UI store and the host process\<close>

datatype documentRef = DocumentByID nat

datatype hitPlayObj = LayerIDsAtPoint documentRef num num

text \<open>
  The result object of a hit test, read at its keys; the value at \<open>layersHit\<close> is the
  list of layer IDs the host reports.
\<close>

type_synonym descriptorResult = "string \<Rightarrow> nat list option"

text \<open>
  What the module asks of its collaborators: the coordinate transforms and the zoom
  factor of the UI store, \<open>window.devicePixelRatio\<close>, \<open>uiUtil.getNameBadgeBounds\<close>,
  the \<open>contains\<close> method of a bounds object, and the host process, which answers a hit
  test with a result object or fails, and plays \<open>placedLayerEditContents\<close> or fails.

  The language and the Immutable library are collaborators too. \<open>num_add\<close>, \<open>num_mul\<close>
  and \<open>num_div\<close> are \<open>+\<close>, \<open>*\<close> and \<open>/\<close> on doubles. \<open>hashPlace_layer\<close> and
  \<open>hashPlace_id\<close> give the place that the hash of a layer, or of a layer ID, has in the
  hash trie of an \<open>Immutable.Set\<close>: a set of more than eight elements iterates by
  ascending place, elements of one hash in the order of insertion.
\<close>

record env =
  transformWindowToCanvas :: "num \<Rightarrow> num \<Rightarrow> num \<times> num"
  transformCanvasToWindow :: "num \<Rightarrow> num \<Rightarrow> num \<times> num"
  zoomCanvasToWindow :: "num \<Rightarrow> num"
  devicePixelRatio :: num
  getNameBadgeBounds :: "bounds option \<Rightarrow> num \<Rightarrow> bounds option"
  contains :: "bounds \<Rightarrow> num \<Rightarrow> num \<Rightarrow> bool"
  playObject :: "hitPlayObj \<Rightarrow> descriptorResult settled"
  play_placedLayerEditContents :: "unit settled"
  num_add :: "num \<Rightarrow> num \<Rightarrow> num"
  num_mul :: "num \<Rightarrow> num \<Rightarrow> num"
  num_div :: "num \<Rightarrow> num \<Rightarrow> num"
  hashPlace_layer :: "layer \<Rightarrow> nat"
  hashPlace_id :: "nat \<Rightarrow> nat"

subsection \<open>Collections\<close>

text \<open>
  An \<open>Immutable.List\<close> is a list, and so is an \<open>OrderedSet\<close>, which \<open>sortBy\<close> makes of a
  set and which keeps its order when filtered. The native \<open>Set\<close> that the reducers fill
  is a list without duplicates in the order of insertion; \<open>add\<close> leaves a set that has
  the element as it is.

  An \<open>Immutable.Set\<close> is built by adding the elements one by one. Up to eight elements
  it keeps them in an array and iterates in the order of insertion; with more it is a
  hash trie and iterates by the place of each element's hash, elements of one hash in
  the order of insertion: a stable sort by place. A set made from a set by \<open>map\<close>,
  \<open>filter\<close> or \<open>concat\<close> is built anew from the elements in the order the old one
  iterates.

  Layers are immutable records, which \<open>Immutable.is\<close>, \<open>contains\<close> and \<open>indexOf\<close> compare
  by their contents; the native \<open>Set\<close> compares objects by identity, and a layer
  structure holds one object per layer, so there too equal layers are the same layer.
\<close>

definition Set_add :: "'a list \<Rightarrow> 'a \<Rightarrow> 'a list" where
  "Set_add s x = (if x \<in> set s then s else s @ [x])"

definition Immutable_Set :: "('a \<Rightarrow> nat) \<Rightarrow> 'a list \<Rightarrow> 'a list" where
  "Immutable_Set place xs =
     (let s = foldl Set_add [] xs
      in if length s \<le> 8 then s else sort_key place s)"

text \<open>\<open>Immutable.List(ids)\<close>: the empty list when \<open>ids\<close> is undefined.\<close>

definition Immutable_List :: "'a list option \<Rightarrow> 'a list" where
  "Immutable_List ids = (case ids of None \<Rightarrow> [] | Some xs \<Rightarrow> xs)"

text \<open>\<open>indexOf\<close>: the first position of the element, \<open>-1\<close> when it is absent.\<close>

fun indexOf :: "'a list \<Rightarrow> 'a \<Rightarrow> int" where
  "indexOf [] x = - 1"
| "indexOf (y # ys) x =
     (if y = x then 0 else (let r = indexOf ys x in if r < 0 then - 1 else r + 1))"

text \<open>
  The remainder operator \<open>%\<close> on integral numbers: the sign of the dividend, and NaN
  (\<open>None\<close>) for the divisor zero.
\<close>

definition js_rem :: "int \<Rightarrow> int \<Rightarrow> int option" where
  "js_rem a b = (if b = 0 then None else Some (sgn a * (\<bar>a\<bar> mod \<bar>b\<bar>)))"

text \<open>
  \<open>List.get(index)\<close>: a negative index counts from the end; NaN and an index out of
  range give undefined.
\<close>

definition List_get :: "'a list \<Rightarrow> int option \<Rightarrow> 'a option" where
  "List_get xs index =
     (case index of
        None \<Rightarrow> None
      | Some i \<Rightarrow>
          (let size = int (length xs);
               wrapped = (if i < 0 then size + i else i)
           in if wrapped < 0 \<or> size \<le> wrapped then None else Some (xs ! nat wrapped)))"

text \<open>
  Modelled from the spec: the helpers \<open>collection.pluck\<close> and \<open>collection.intersection\<close>
  of \<open>js/util/collection\<close>, which is not among the sources; they are read as their
  names and their use in the module say. \<open>pluck\<close> maps every element to the named
  property (on a set the result is a set again, \<open>Set_pluck\<close>, with the places of the new elements); \<open>intersection\<close> keeps
  the elements of its first argument that the second contains, in the order of the
  first, so that the last element of an intersection with the hit list is the top of
  the z-order, as the module's comment on \<open>last()\<close> expects.
\<close>

definition pluck :: "'a list \<Rightarrow> ('a \<Rightarrow> 'b) \<Rightarrow> 'b list" where
  "pluck xs property = map property xs"

definition Set_pluck :: "('b \<Rightarrow> nat) \<Rightarrow> 'a list \<Rightarrow> ('a \<Rightarrow> 'b) \<Rightarrow> 'b list" where
  "Set_pluck place xs property = Immutable_Set place (map property xs)"

definition intersection :: "'a list \<Rightarrow> 'a list \<Rightarrow> 'a list" where
  "intersection xs ys = filter (\<lambda>elem. elem \<in> set ys) xs"

subsection \<open>The private helpers\<close>

text \<open>\<open>_getDiveableLayers\<close>: the superSelectable children of the given layers.\<close>

definition getDiveableLayers :: "layerTree \<Rightarrow> layer list \<Rightarrow> layer list" where
  "getDiveableLayers layerTree parentLayers =
     filter layer_superSelectable (concat (map (tree_children layerTree) parentLayers))"

text \<open>\<open>_getSelectedLayerParents\<close>: the reducer adds to a set, which is then listed.\<close>

definition getSelectedLayerParents :: "layerTree \<Rightarrow> bool \<Rightarrow> layer list" where
  "getSelectedLayerParents layerTree noDeselect =
     foldl (\<lambda>parents layer.
              (case tree_parent layerTree layer of
                 None \<Rightarrow> if noDeselect then Set_add parents layer else parents
               | Some parent \<Rightarrow> Set_add parents parent))
       [] (tree_selected layerTree)"

text \<open>
  \<open>_getNextSiblingsForSelectedLayers\<close>: \<open>siblings.get(nextIndex)\<close> may be undefined, so
  the result lists optional layers.
\<close>

definition getNextSiblingsForSelectedLayers :: "layerTree \<Rightarrow> bool \<Rightarrow> layer option list" where
  "getNextSiblingsForSelectedLayers layerTree previous =
     (if tree_all layerTree = [] then []
      else
        (let selectedLayers =
               (if tree_selected layerTree = [] then tree_top layerTree
                else tree_selected layerTree);
             step = (if previous then - 1 else 1)
         in map (\<lambda>layer.
                   (let siblings = filter layer_superSelectable (tree_siblings layerTree layer);
                        layerIndex = (if siblings = [] then 0 else indexOf siblings layer);
                        nextIndex = js_rem (layerIndex + step) (int (length siblings))
                    in List_get siblings nextIndex))
              (take 1 selectedLayers)))"

text \<open>
  \<open>_getHitLayerIDs\<close>: \<open>descriptor.playObject(hitPlayObj).get("layersHit").then(f, g)\<close>.
  \<open>promise_get\<close> reads a property of the value a promise resolves with;
  \<open>promise_then\<close> runs the first handler on a resolved promise and settles as the
  second says on a rejected one.
\<close>

definition promise_get :: "string \<Rightarrow> (string \<Rightarrow> 'a) settled \<Rightarrow> 'a settled" where
  "promise_get property p =
     (case p of Resolved obj \<Rightarrow> Resolved (obj property) | Rejected \<Rightarrow> Rejected)"

definition promise_then :: "'a settled \<Rightarrow> ('a \<Rightarrow> 'b settled) \<Rightarrow> 'b settled \<Rightarrow> 'b settled" where
  "promise_then p onFulfilled onRejected =
     (case p of Resolved v \<Rightarrow> onFulfilled v | Rejected \<Rightarrow> onRejected)"

definition getHitLayerIDs :: "env \<Rightarrow> nat \<Rightarrow> num \<Rightarrow> num \<Rightarrow> nat list settled" where
  "getHitLayerIDs e ident x y =
     (let documentRef = DocumentByID ident;
          hitPlayObj = LayerIDsAtPoint documentRef x y
      in promise_then (promise_get ''layersHit'' (playObject e hitPlayObj))
           (\<lambda>ids. Resolved (Immutable_List ids))
           (Resolved (Immutable_List None)))"

text \<open>
  \<open>_getContainingLayerBounds\<close>: an artboard is tested at its name badge, any other layer
  at the bounds of its children. \<open>testedBounds\<close> is the variable \<open>bounds\<close> of the reducer.
\<close>

definition testedBounds :: "env \<Rightarrow> layerTree \<Rightarrow> layer \<Rightarrow> bounds option" where
  "testedBounds e layerTree layer =
     (if layer_isArtboard layer then
        (let scale = num_mul e (zoomCanvasToWindow e (Finite 1)) (devicePixelRatio e)
         in getNameBadgeBounds e (layer_bounds layer) scale)
      else tree_childBounds layerTree layer)"

definition getContainingLayerBounds :: "env \<Rightarrow> layerTree \<Rightarrow> num \<Rightarrow> num \<Rightarrow> layer list" where
  "getContainingLayerBounds e layerTree x y =
     Immutable_Set (hashPlace_layer e)
       (foldl (\<lambda>layerSet layer.
                 (case testedBounds e layerTree layer of
                    None \<Rightarrow> layerSet
                  | Some b \<Rightarrow> if contains e b x y then Set_add layerSet layer else layerSet))
          [] (tree_all layerTree))"

text \<open>
  \<open>_getLeafLayersWithID\<close>: the map is the object whose keys are the covered IDs.
\<close>

definition getLeafLayersWithID :: "layerTree \<Rightarrow> (nat \<Rightarrow> bool option) \<Rightarrow> layer list" where
  "getLeafLayersWithID layerTree layerMap =
     filter (\<lambda>layer. layerMap (layer_id layer) \<noteq> None) (tree_leaves layerTree)"

definition isOnlySelectedLayer :: "layerTree \<Rightarrow> layer \<Rightarrow> bool" where
  "isOnlySelectedLayer layerTree layer =
     (let selected = tree_selected layerTree
      in if length selected \<noteq> 1 then False else hd selected = layer)"

text \<open>
  \<open>_getLayersBelowCurrentSelection\<close>: the covered layers are an \<open>Immutable.Set\<close>, and so
  are the filtered layers and their IDs.
\<close>

definition getLayersBelowCurrentSelection ::
  "env \<Rightarrow> layerTree \<Rightarrow> layer list \<Rightarrow> nat list" where
  "getLayersBelowCurrentSelection e layerTree coveredLayers =
     (let selectedLayerAncestors =
            foldl (\<lambda>layerSet layer. foldl Set_add layerSet (tree_ancestors layerTree layer))
              [] (tree_selected layerTree);
          selectableCoveredLayers =
            Immutable_Set (hashPlace_layer e)
              (filter (\<lambda>layer. \<not> layer_locked layer \<and> layer_kind layer \<noteq> GROUPEND \<and>
                               layer \<notin> set selectedLayerAncestors)
                 coveredLayers)
      in Set_pluck (hashPlace_id e) selectableCoveredLayers layer_id)"

subsection \<open>marqueeSelectCommand\<close>

text \<open>
  \<open>ids.map(doc.layers.byID.bind(doc.layers))\<close> looks every ID up; the list of layers is
  empty exactly when the list of IDs is.
\<close>

definition marqueeSelectCommand :: "document \<Rightarrow> nat list \<Rightarrow> bool \<Rightarrow> unit outcome" where
  "marqueeSelectCommand doc ids add =
     (let layers = map (tree_byID (doc_layers doc)) ids;
          modifier = (if add then ''add'' else ''select'')
      in if layers = [] \<and> \<not> add then
           ([Dispatch_SUPERSELECT_MARQUEE False, LogSuperselect ''marqueeDeselect'',
             DeselectAll doc], Resolved ())
         else if layers \<noteq> [] then
           ([Dispatch_SUPERSELECT_MARQUEE False, LogSuperselect ''marqueeSelect'',
             Select doc (LayerList layers) (Some modifier)], Resolved ())
         else ([Dispatch_SUPERSELECT_MARQUEE False], Resolved ()))"

subsection \<open>editLayerCommand\<close>

text \<open>
  The \<open>switch\<close> on the kind of the layer, at the window coordinates \<open>x\<close>, \<open>y\<close>. The
  rejection of \<open>placedLayerEditContents\<close> (the user cancelled) is swallowed.
\<close>

definition editLayerAt :: "env \<Rightarrow> layer \<Rightarrow> num \<Rightarrow> num \<Rightarrow> unit outcome" where
  "editLayerAt e layer x y =
     (case layer_kind layer of
        VECTOR \<Rightarrow>
          ([LogSuperselect ''edit_vector'', ToolSelect ''superselectVector'',
            PostEvent LEFT_MOUSE_DOWN x y], Resolved ())
      | TEXT \<Rightarrow>
          ([LogSuperselect ''edit_text'', ToolSelect ''superselectType'',
            PostEvent LEFT_MOUSE_DOWN x y], Resolved ())
      | SMARTOBJECT \<Rightarrow>
          (case play_placedLayerEditContents e of
             Resolved u \<Rightarrow>
               ([LogSuperselect ''edit_smart_object'', Play_placedLayerEditContents,
                 UpdateDocument], Resolved ())
           | Rejected \<Rightarrow>
               ([LogSuperselect ''edit_smart_object'', Play_placedLayerEditContents],
                Resolved ()))
      | GROUPEND \<Rightarrow> ([], Resolved ())
      | OTHERKIND k \<Rightarrow> ([], Resolved ()))"

text \<open>
  \<open>!x || !y\<close> holds for a coordinate that was not passed and for a coordinate that is
  zero or NaN (\<open>falsy\<close>); then the centre of the layer's bounds, computed in doubles and
  moved to window coordinates, takes its place.
\<close>

definition falsy :: "num \<Rightarrow> bool" where
  "falsy n = (n = Finite 0 \<or> n = NaN)"

definition editLayerAtCenter :: "env \<Rightarrow> layer \<Rightarrow> unit outcome" where
  "editLayerAtCenter e layer =
     (case layer_bounds layer of
        None \<Rightarrow> ([], Resolved ())
      | Some bounds \<Rightarrow>
          (let x = num_div e (num_add e (bounds_right bounds) (bounds_left bounds)) (Finite 2);
               y = num_div e (num_add e (bounds_top bounds) (bounds_bottom bounds)) (Finite 2);
               windowCoords = transformCanvasToWindow e x y
           in editLayerAt e layer (fst windowCoords) (snd windowCoords)))"

definition editLayerCommand ::
  "env \<Rightarrow> document \<Rightarrow> layer \<Rightarrow> num option \<Rightarrow> num option \<Rightarrow> unit outcome" where
  "editLayerCommand e doc layer x y =
     (if layer_isBackground layer then ([], Resolved ())
      else
        (case (x, y) of
           (Some x', Some y') \<Rightarrow>
             if falsy x' \<or> falsy y' then editLayerAtCenter e layer
             else editLayerAt e layer x' y'
         | (Some x', None) \<Rightarrow> editLayerAtCenter e layer
         | (None, y') \<Rightarrow> editLayerAtCenter e layer))"

subsection \<open>clickCommand\<close>

text \<open>
  The IDs of the covered layers joined with the hit IDs (a set of IDs, made of a set of
  IDs by \<open>concat\<close>), sorted by their position in the hit list (\<open>sortBy\<close> is stable and
  gives an ordered set; an ID that was not hit has position \<open>-1\<close>).
\<close>

definition coveredLayerIDs :: "env \<Rightarrow> layer list \<Rightarrow> nat list \<Rightarrow> nat list" where
  "coveredLayerIDs e coveredLayers hitLayerIDs =
     sort_key (\<lambda>i. indexOf hitLayerIDs i)
       (Immutable_Set (hashPlace_id e)
          (Set_pluck (hashPlace_id e) coveredLayers layer_id @ hitLayerIDs))"

text \<open>The two branches of \<open>if (deep)\<close>.\<close>

definition clickedSelectableLayerIDs ::
  "env \<Rightarrow> layerTree \<Rightarrow> layer list \<Rightarrow> nat list \<Rightarrow> bool \<Rightarrow> nat list" where
  "clickedSelectableLayerIDs e layerTree coveredLayers hitLayerIDs deep =
     (if deep then
        (let hitLayerMap =
               foldl (\<lambda>layerMap i. layerMap(i \<mapsto> True)) Map.empty
                 (coveredLayerIDs e coveredLayers hitLayerIDs);
             clickedSelectableLayers = getLeafLayersWithID layerTree hitLayerMap
         in pluck clickedSelectableLayers layer_id)
      else
        (let selectableLayers = tree_selectable layerTree;
             clickableLayers = intersection selectableLayers coveredLayers;
             clickableLayerIDs = pluck clickableLayers layer_id
         in intersection (coveredLayerIDs e coveredLayers hitLayerIDs) clickableLayerIDs))"

text \<open>
  The end of the first branch, once the modifier is known: a plain click on a selected
  layer fires nothing.
\<close>

definition clickSelect :: "document \<Rightarrow> layer \<Rightarrow> bool \<Rightarrow> string \<Rightarrow> bool outcome" where
  "clickSelect doc topLayer deep modifier =
     (if modifier = ''select'' \<and> layer_selected topLayer then ([], Resolved True)
      else
        ([LogSuperselect ((if deep then ''click_deep_'' else ''click_'') @ modifier),
          Select doc (OneLayer (Some topLayer)) (Some modifier)], Resolved True))"

text \<open>
  The handler that runs on the hit IDs. \<open>layerTree.byID\<close> of an unknown ID is undefined,
  and reading \<open>topLayer.selected\<close> then throws inside the handler: the promise rejects.
\<close>

definition clickHandler ::
  "env \<Rightarrow> document \<Rightarrow> num \<times> num \<Rightarrow> bool \<Rightarrow> bool \<Rightarrow> nat list \<Rightarrow> bool outcome" where
  "clickHandler e doc coords deep add hitLayerIDs =
     (let layerTree = doc_layers doc;
          coveredLayers = getContainingLayerBounds e layerTree (fst coords) (snd coords);
          clicked = clickedSelectableLayerIDs e layerTree coveredLayers hitLayerIDs deep
      in if clicked \<noteq> [] then
           (let topLayerID = last clicked
            in case tree_byID layerTree topLayerID of
                 None \<Rightarrow> ([], Rejected)
               | Some topLayer \<Rightarrow>
                   if add \<and> layer_selected topLayer then
                     (if isOnlySelectedLayer layerTree topLayer then
                        ([LogSuperselect ''deselect_all'', DeselectAll doc], Resolved False)
                      else clickSelect doc topLayer deep ''deselect'')
                   else if add then clickSelect doc topLayer deep ''add''
                   else clickSelect doc topLayer deep ''select'')
         else if tree_selected (doc_layers doc) \<noteq> [] then
           ([LogSuperselect ''deselect_all'', DeselectAll doc], Resolved False)
         else ([], Resolved False))"

definition clickCommand ::
  "env \<Rightarrow> document \<Rightarrow> num \<Rightarrow> num \<Rightarrow> bool \<Rightarrow> bool \<Rightarrow> bool outcome" where
  "clickCommand e doc x y deep add =
     (let coords = transformWindowToCanvas e x y
      in case getHitLayerIDs e (doc_id doc) (fst coords) (snd coords) of
           Rejected \<Rightarrow> ([], Rejected)
         | Resolved hitLayerIDs \<Rightarrow> clickHandler e doc coords deep add hitLayerIDs)"

subsection \<open>doubleClickCommand\<close>

definition doubleClickHandler ::
  "env \<Rightarrow> document \<Rightarrow> num \<Rightarrow> num \<Rightarrow> num \<times> num \<Rightarrow> nat list \<Rightarrow> unit outcome" where
  "doubleClickHandler e doc x y coords hitLayerIDs =
     (let layerTree = doc_layers doc;
          diveIntoLayers =
            (if tree_selected layerTree = [] then tree_top layerTree
             else tree_selected layerTree);
          selectableLayers = getDiveableLayers layerTree diveIntoLayers
      in if selectableLayers = [] then
           (let selectedLayers = tree_selected layerTree
            in case find (\<lambda>layer. layer_id layer \<in> set hitLayerIDs) selectedLayers of
                 Some clickedLayer \<Rightarrow>
                   ([Select doc (OneLayer (Some clickedLayer)) None,
                     LogSuperselect ''double_click_edit'',
                     EditLayer doc clickedLayer (Some x) (Some y)], Resolved ())
               | None \<Rightarrow> ([], Resolved ()))
         else
           (let coveredLayers = getContainingLayerBounds e layerTree (fst coords) (snd coords);
                diveableLayers = intersection selectableLayers coveredLayers;
                diveableLayerIDs = pluck diveableLayers layer_id;
                targetLayerIDs = intersection hitLayerIDs diveableLayerIDs
            in if targetLayerIDs \<noteq> [] then
                 ([LogSuperselect ''double_click_select'',
                   Select doc (OneLayer (tree_byID layerTree (last targetLayerIDs))) None],
                  Resolved ())
               else
                 (let underLayerIDs = getLayersBelowCurrentSelection e layerTree coveredLayers
                  in if underLayerIDs \<noteq> [] then
                       ([Select doc (OneLayer (tree_byID layerTree (last underLayerIDs))) None],
                        Resolved ())
                     else ([], Resolved ()))))"

definition doubleClickCommand :: "env \<Rightarrow> document \<Rightarrow> num \<Rightarrow> num \<Rightarrow> unit outcome" where
  "doubleClickCommand e doc x y =
     (let coords = transformWindowToCanvas e x y
      in case getHitLayerIDs e (doc_id doc) (fst coords) (snd coords) of
           Rejected \<Rightarrow> ([], Rejected)
         | Resolved hitLayerIDs \<Rightarrow> doubleClickHandler e doc x y coords hitLayerIDs)"

subsection \<open>backOutCommand, nextSiblingCommand, diveInCommand\<close>

definition backOutCommand :: "document \<Rightarrow> bool \<Rightarrow> unit outcome" where
  "backOutCommand doc noDeselect =
     (let layerTree = doc_layers doc;
          backOutParents = getSelectedLayerParents layerTree noDeselect
      in if backOutParents \<noteq> [] then
           ([LogSuperselect ''key_backout'',
             Select doc (LayerList (map Some backOutParents)) None], Resolved ())
         else if \<not> noDeselect then
           ([LogSuperselect ''key_backout_deselect'', DeselectAll doc], Resolved ())
         else ([], Resolved ()))"

definition nextSiblingCommand :: "document \<Rightarrow> bool \<Rightarrow> unit outcome" where
  "nextSiblingCommand doc cycleBack =
     (let layerTree = doc_layers doc;
          nextSiblings = getNextSiblingsForSelectedLayers layerTree cycleBack
      in ([LogSuperselect ''key_next_sibling'',
           Select doc (LayerList nextSiblings) None], Resolved ()))"

definition diveInCommand :: "document \<Rightarrow> unit outcome" where
  "diveInCommand doc =
     (let layerTree = doc_layers doc;
          diveableLayers = getDiveableLayers layerTree (tree_selected layerTree)
      in if diveableLayers = [] then
           (let selectedLayers = tree_selected layerTree
            in if length selectedLayers = 1 then
                 (let topLayer = hd selectedLayers
                  in if layer_locked topLayer then ([], Resolved ())
                     else
                       ([LogSuperselect ''key_edit'', EditLayer doc topLayer None None],
                        Resolved ()))
               else ([], Resolved ()))
         else
           ([LogSuperselect ''key_dive_in'',
             Select doc (OneLayer (Some (hd diveableLayers))) None], Resolved ()))"

subsection \<open>A sample document\<close>

text \<open>
  A document to run the commands on. Layer 10 is a group at the top level with the
  children 11 (a vector layer) and 12 (a text layer); layer 13 is a locked smart object
  at the top level, and layer 14 an artboard. The selection is a parameter: the list of
  the selected IDs. Layer 11 covers the square from 0 to 5, layer 12 the square from 4
  to 10, the group both; layer 13 covers the square from 20 to 30; the artboard spans 40
  to 100 and is tested at its name badge, the strip of height 2 above it.
\<close>

definition sampleBox :: "rat \<Rightarrow> rat \<Rightarrow> bounds" where
  "sampleBox lo hi =
     \<lparr>bounds_left = Finite lo, bounds_top = Finite lo,
      bounds_right = Finite hi, bounds_bottom = Finite hi\<rparr>"

definition sampleLayer :: "nat list \<Rightarrow> nat \<Rightarrow> layer" where
  "sampleLayer sel i =
     \<lparr>layer_id = i,
      layer_kind =
        (if i = 11 then VECTOR else if i = 12 then TEXT
         else if i = 13 then SMARTOBJECT else OTHERKIND 7),
      layer_selected = (i \<in> set sel),
      layer_locked = (i = 13),
      layer_superSelectable = (i \<noteq> 13),
      layer_isArtboard = (i = 14),
      layer_isBackground = False,
      layer_bounds =
        Some (if i = 11 then sampleBox 0 5 else if i = 12 then sampleBox 4 10
              else if i = 13 then sampleBox 20 30 else if i = 14 then sampleBox 40 100
              else sampleBox 0 10)\<rparr>"

definition sampleTree :: "nat list \<Rightarrow> layerTree" where
  "sampleTree sel =
     \<lparr>tree_all = map (sampleLayer sel) [10, 11, 12, 13, 14],
      tree_top = map (sampleLayer sel) [10, 13, 14],
      tree_selected =
        map (sampleLayer sel) (filter (\<lambda>i. i \<in> set sel) [10, 11, 12, 13, 14]),
      tree_selectable = map (sampleLayer sel) [10, 11, 12, 14],
      tree_leaves = map (sampleLayer sel) [11, 12],
      tree_children =
        (\<lambda>l. if layer_id l = 10 then map (sampleLayer sel) [11, 12] else []),
      tree_parent =
        (\<lambda>l. if layer_id l = 11 \<or> layer_id l = 12 then Some (sampleLayer sel 10) else None),
      tree_siblings =
        (\<lambda>l. if layer_id l = 11 \<or> layer_id l = 12 then map (sampleLayer sel) [11, 12]
             else map (sampleLayer sel) [10, 13, 14]),
      tree_ancestors =
        (\<lambda>l. if layer_id l = 11 \<or> layer_id l = 12 then [sampleLayer sel 10, l] else [l]),
      tree_byID =
        (\<lambda>i. if 10 \<le> i \<and> i \<le> 14 then Some (sampleLayer sel i) else None),
      tree_childBounds = layer_bounds\<rparr>"

definition sampleDoc :: "nat list \<Rightarrow> document" where
  "sampleDoc sel = \<lparr>doc_id = 9, doc_layers = sampleTree sel\<rparr>"

text \<open>
  An environment whose window and canvas coordinates agree, and whose host process
  answers every hit test with the given settlement. Its arithmetic is IEEE arithmetic
  without the rounding of finite results and without the sign of zero: a result that
  IEEE arithmetic rounds to an infinity, one of magnitude \<open>2 ^ 1024 - 2 ^ 970\<close> or more,
  is that infinity, and any other result is exact, as doubles are bit for bit on the
  small integers and halves of the samples.
  The place of an ID in the hash trie is the ID itself: a small number hashes to itself
  and the trie orders by the low five bits of the hash first, so this is the order of
  the sample IDs, which are below 32. The place of a layer is set to its ID; no
  evaluation below depends on it.
\<close>

definition overflow :: rat where
  "overflow = 2 ^ 1024 - 2 ^ 970"

definition in_range :: "rat \<Rightarrow> num" where
  "in_range r =
     (if overflow \<le> r then PlusInfinity
      else if r \<le> - overflow then MinusInfinity else Finite r)"

fun sample_neg :: "num \<Rightarrow> num" where
  "sample_neg (Finite a) = Finite (- a)"
| "sample_neg PlusInfinity = MinusInfinity"
| "sample_neg MinusInfinity = PlusInfinity"
| "sample_neg NaN = NaN"

fun sample_add :: "num \<Rightarrow> num \<Rightarrow> num" where
  "sample_add (Finite a) (Finite b) = in_range (a + b)"
| "sample_add NaN b = NaN"
| "sample_add a NaN = NaN"
| "sample_add PlusInfinity b = (if b = MinusInfinity then NaN else PlusInfinity)"
| "sample_add MinusInfinity b = (if b = PlusInfinity then NaN else MinusInfinity)"
| "sample_add (Finite a) b = b"

fun sample_mul :: "num \<Rightarrow> num \<Rightarrow> num" where
  "sample_mul (Finite a) (Finite b) = in_range (a * b)"
| "sample_mul NaN b = NaN"
| "sample_mul a NaN = NaN"
| "sample_mul (Finite a) b = (if a = 0 then NaN else if 0 < a then b else sample_neg b)"
| "sample_mul a (Finite b) = (if b = 0 then NaN else if 0 < b then a else sample_neg a)"
| "sample_mul a b = (if a = b then PlusInfinity else MinusInfinity)"

fun sample_div :: "num \<Rightarrow> num \<Rightarrow> num" where
  "sample_div (Finite a) (Finite b) =
     (if b = 0 then
        (if a = 0 then NaN else if 0 < a then PlusInfinity else MinusInfinity)
      else in_range (a / b))"
| "sample_div NaN b = NaN"
| "sample_div a NaN = NaN"
| "sample_div (Finite a) b = Finite 0"
| "sample_div a (Finite b) = (if 0 \<le> b then a else sample_neg a)"
| "sample_div a b = NaN"

fun sample_le :: "num \<Rightarrow> num \<Rightarrow> bool" where
  "sample_le (Finite a) (Finite b) = (a \<le> b)"
| "sample_le NaN b = False"
| "sample_le a NaN = False"
| "sample_le MinusInfinity b = True"
| "sample_le a PlusInfinity = True"
| "sample_le a b = False"

definition sampleEnv :: "descriptorResult settled \<Rightarrow> env" where
  "sampleEnv answer =
     \<lparr>transformWindowToCanvas = (\<lambda>x y. (x, y)),
      transformCanvasToWindow = (\<lambda>x y. (x, y)),
      zoomCanvasToWindow = (\<lambda>z. z),
      devicePixelRatio = Finite 1,
      getNameBadgeBounds =
        (\<lambda>b scale. case b of
                      None \<Rightarrow> None
                    | Some b' \<Rightarrow>
                        Some (b'\<lparr>bounds_top :=
                                    sample_add (bounds_top b') (sample_mul (Finite (- 2)) scale),
                                  bounds_bottom := bounds_top b'\<rparr>)),
      contains =
        (\<lambda>b x y. sample_le (bounds_left b) x \<and> sample_le x (bounds_right b) \<and>
                  sample_le (bounds_top b) y \<and> sample_le y (bounds_bottom b)),
      playObject = (\<lambda>obj. answer),
      play_placedLayerEditContents = Resolved (),
      num_add = sample_add,
      num_mul = sample_mul,
      num_div = sample_div,
      hashPlace_layer = layer_id,
      hashPlace_id = (\<lambda>i. i)\<rparr>"

text \<open>The result object that reports the given IDs under \<open>layersHit\<close>.\<close>

definition layersHit :: "nat list \<Rightarrow> descriptorResult" where
  "layersHit ids = (\<lambda>key. if key = ''layersHit'' then Some ids else None)"

text \<open>
  A second document: the locked smart object 13 alone, selected. It has no
  superSelectable sibling, itself included.
\<close>

definition loneLockedTree :: layerTree where
  "loneLockedTree =
     (sampleTree [13])
       \<lparr>tree_all := [sampleLayer [13] 13], tree_top := [sampleLayer [13] 13],
        tree_siblings := (\<lambda>l. [sampleLayer [13] 13])\<rparr>"

definition loneLockedDoc :: document where
  "loneLockedDoc = \<lparr>doc_id = 8, doc_layers = loneLockedTree\<rparr>"

text \<open>
  A third document: a stack of plain layers with the given IDs, all covering the square
  from 0 to 10, under the selected group 29, whose one child 30 lies elsewhere (the
  square from 50 to 60). \<open>layerTree.all\<close> lists the child, the group and then the stack
  in the order given.
\<close>

definition stackLayer :: "nat \<Rightarrow> layer" where
  "stackLayer i =
     \<lparr>layer_id = i, layer_kind = OTHERKIND 2, layer_selected = (i = 29),
      layer_locked = False, layer_superSelectable = True, layer_isArtboard = False,
      layer_isBackground = False,
      layer_bounds = Some (if i = 29 \<or> i = 30 then sampleBox 50 60 else sampleBox 0 10)\<rparr>"

definition stackTree :: "nat list \<Rightarrow> layerTree" where
  "stackTree ids =
     \<lparr>tree_all = map stackLayer (30 # 29 # ids),
      tree_top = map stackLayer (29 # ids),
      tree_selected = [stackLayer 29],
      tree_selectable = map stackLayer (29 # ids),
      tree_leaves = map stackLayer (30 # ids),
      tree_children = (\<lambda>l. if layer_id l = 29 then [stackLayer 30] else []),
      tree_parent = (\<lambda>l. if layer_id l = 30 then Some (stackLayer 29) else None),
      tree_siblings =
        (\<lambda>l. if layer_id l = 30 then [stackLayer 30] else map stackLayer (29 # ids)),
      tree_ancestors = (\<lambda>l. if layer_id l = 30 then [stackLayer 29, l] else [l]),
      tree_byID = (\<lambda>i. if i \<in> set (30 # 29 # ids) then Some (stackLayer i) else None),
      tree_childBounds = layer_bounds\<rparr>"

definition stackDoc :: "nat list \<Rightarrow> document" where
  "stackDoc ids = \<lparr>doc_id = 7, doc_layers = stackTree ids\<rparr>"

section \<open>The sample document, evaluated\<close>

lemma in_range_small [simp]: "\<bar>r\<bar> \<le> 1000 \<Longrightarrow> in_range r = Finite r"
proof -
  assume small: "\<bar>r\<bar> \<le> 1000"
  have "(1000 :: rat) < 2 ^ 1024 - 2 ^ 970" by simp
  then have "\<bar>r\<bar> < overflow" using small by (simp add: overflow_def)
  then show ?thesis by (auto simp: in_range_def)
qed

lemma sampleBox_fields [simp]:
  "bounds_left (sampleBox lo hi) = Finite lo" "bounds_top (sampleBox lo hi) = Finite lo"
  "bounds_right (sampleBox lo hi) = Finite hi" "bounds_bottom (sampleBox lo hi) = Finite hi"
  by (simp_all add: sampleBox_def)

lemma sampleLayer_fields [simp]:
  "layer_id (sampleLayer sel i) = i"
  "layer_selected (sampleLayer sel i) = (i \<in> set sel)"
  "layer_locked (sampleLayer sel i) = (i = 13)"
  "layer_superSelectable (sampleLayer sel i) = (i \<noteq> 13)"
  "layer_isArtboard (sampleLayer sel i) = (i = 14)"
  "layer_isBackground (sampleLayer sel i) = False"
  "layer_kind (sampleLayer sel i) =
     (if i = 11 then VECTOR else if i = 12 then TEXT
      else if i = 13 then SMARTOBJECT else OTHERKIND 7)"
  "layer_bounds (sampleLayer sel i) =
     Some (if i = 11 then sampleBox 0 5 else if i = 12 then sampleBox 4 10
           else if i = 13 then sampleBox 20 30 else if i = 14 then sampleBox 40 100
           else sampleBox 0 10)"
  by (simp_all add: sampleLayer_def)

lemma sampleLayer_eq [simp]: "(sampleLayer sel i = sampleLayer sel j) = (i = j)"
  by (auto simp: sampleLayer_def)

lemma sampleTree_fields [simp]:
  "tree_all (sampleTree sel) = map (sampleLayer sel) [10, 11, 12, 13, 14]"
  "tree_top (sampleTree sel) = map (sampleLayer sel) [10, 13, 14]"
  "tree_selected (sampleTree sel) =
     map (sampleLayer sel) (filter (\<lambda>i. i \<in> set sel) [10, 11, 12, 13, 14])"
  "tree_selectable (sampleTree sel) = map (sampleLayer sel) [10, 11, 12, 14]"
  "tree_leaves (sampleTree sel) = map (sampleLayer sel) [11, 12]"
  "tree_children (sampleTree sel) l =
     (if layer_id l = 10 then map (sampleLayer sel) [11, 12] else [])"
  "tree_parent (sampleTree sel) l =
     (if layer_id l = 11 \<or> layer_id l = 12 then Some (sampleLayer sel 10) else None)"
  "tree_siblings (sampleTree sel) l =
     (if layer_id l = 11 \<or> layer_id l = 12 then map (sampleLayer sel) [11, 12]
      else map (sampleLayer sel) [10, 13, 14])"
  "tree_ancestors (sampleTree sel) l =
     (if layer_id l = 11 \<or> layer_id l = 12 then [sampleLayer sel 10, l] else [l])"
  "tree_byID (sampleTree sel) i =
     (if 10 \<le> i \<and> i \<le> 14 then Some (sampleLayer sel i) else None)"
  "tree_childBounds (sampleTree sel) = layer_bounds"
  by (simp_all add: sampleTree_def)

lemma sampleDoc_fields [simp]:
  "doc_id (sampleDoc sel) = 9" "doc_layers (sampleDoc sel) = sampleTree sel"
  by (simp_all add: sampleDoc_def)

lemma sampleEnv_fields [simp]:
  "transformWindowToCanvas (sampleEnv a) x y = (x, y)"
  "transformCanvasToWindow (sampleEnv a) x y = (x, y)"
  "zoomCanvasToWindow (sampleEnv a) z = z"
  "devicePixelRatio (sampleEnv a) = Finite 1"
  "playObject (sampleEnv a) obj = a"
  "play_placedLayerEditContents (sampleEnv a) = Resolved ()"
  "contains (sampleEnv a) b x y =
     (sample_le (bounds_left b) x \<and> sample_le x (bounds_right b) \<and>
      sample_le (bounds_top b) y \<and> sample_le y (bounds_bottom b))"
  "getNameBadgeBounds (sampleEnv a) (Some b) s =
     Some (b\<lparr>bounds_top := sample_add (bounds_top b) (sample_mul (Finite (- 2)) s),
             bounds_bottom := bounds_top b\<rparr>)"
  "num_add (sampleEnv a) = sample_add"
  "num_mul (sampleEnv a) = sample_mul"
  "num_div (sampleEnv a) = sample_div"
  "hashPlace_layer (sampleEnv a) = layer_id"
  "hashPlace_id (sampleEnv a) = (\<lambda>i. i)"
  by (simp_all add: sampleEnv_def)

lemma stackLayer_fields [simp]:
  "layer_id (stackLayer i) = i"
  "layer_selected (stackLayer i) = (i = 29)"
  "layer_locked (stackLayer i) = False"
  "layer_superSelectable (stackLayer i) = True"
  "layer_isArtboard (stackLayer i) = False"
  "layer_kind (stackLayer i) = OTHERKIND 2"
  "layer_bounds (stackLayer i) =
     Some (if i = 29 \<or> i = 30 then sampleBox 50 60 else sampleBox 0 10)"
  by (simp_all add: stackLayer_def)

lemma stackLayer_eq [simp]: "(stackLayer i = stackLayer j) = (i = j)"
  by (auto simp: stackLayer_def)

lemma stackTree_fields [simp]:
  "tree_all (stackTree ids) = map stackLayer (30 # 29 # ids)"
  "tree_top (stackTree ids) = map stackLayer (29 # ids)"
  "tree_selected (stackTree ids) = [stackLayer 29]"
  "tree_children (stackTree ids) l = (if layer_id l = 29 then [stackLayer 30] else [])"
  "tree_ancestors (stackTree ids) l = (if layer_id l = 30 then [stackLayer 29, l] else [l])"
  "tree_byID (stackTree ids) i =
     (if i \<in> set (30 # 29 # ids) then Some (stackLayer i) else None)"
  "tree_childBounds (stackTree ids) = layer_bounds"
  "doc_id (stackDoc ids) = 7" "doc_layers (stackDoc ids) = stackTree ids"
  by (simp_all add: stackTree_def stackDoc_def)

lemma sample_hit [simp]:
  "getHitLayerIDs (sampleEnv (Resolved (layersHit ids))) ident x y = Resolved ids"
  by (simp add: getHitLayerIDs_def promise_then_def promise_get_def Immutable_List_def
      layersHit_def)

text \<open>
  Three clicks on the sample document: at (1, 1) inside the group and the vector layer,
  at (8, 1) inside the group only, and at (50, 50) inside the artboard but off its name
  badge.
\<close>

lemmas sample_eval =
  getContainingLayerBounds_def testedBounds_def clickedSelectableLayerIDs_def coveredLayerIDs_def
  intersection_def pluck_def Set_pluck_def Immutable_Set_def Set_add_def
  getLeafLayersWithID_def Let_def

lemma sample_covered_1_1:
  "getContainingLayerBounds (sampleEnv a) (sampleTree sel) (Finite 1) (Finite 1) =
     [sampleLayer sel 10, sampleLayer sel 11]"
  by (simp add: sample_eval)

lemma sample_covered_8_1:
  "getContainingLayerBounds (sampleEnv a) (sampleTree sel) (Finite 8) (Finite 1) = [sampleLayer sel 10]"
  by (simp add: sample_eval)

lemma sample_covered_50_50:
  "getContainingLayerBounds (sampleEnv a) (sampleTree sel) (Finite 50) (Finite 50) = []"
  by (simp add: sample_eval)

lemma sample_clicked_1_1:
  "clickedSelectableLayerIDs (sampleEnv a) (sampleTree sel) [sampleLayer sel 10, sampleLayer sel 11]
     [10, 11] False = [10, 11]"
  "clickedSelectableLayerIDs (sampleEnv a) (sampleTree sel) [sampleLayer sel 10, sampleLayer sel 11]
     [10, 11] True = [11]"
  by (simp_all add: sample_eval del: set_filter set_map not_None_eq)

lemma sample_clicked_unreported:
  "clickedSelectableLayerIDs (sampleEnv a) (sampleTree sel) [sampleLayer sel 10, sampleLayer sel 11]
     [] False = [10, 11]"
  by (simp add: sample_eval del: set_filter set_map not_None_eq)

lemma sample_clicked_8_1:
  "clickedSelectableLayerIDs (sampleEnv a) (sampleTree sel) [sampleLayer sel 10] [10] False = [10]"
  "clickedSelectableLayerIDs (sampleEnv a) (sampleTree sel) [sampleLayer sel 10] [10] True = []"
  by (simp_all add: sample_eval del: set_filter set_map not_None_eq)

lemma sample_clicked_50_50:
  "clickedSelectableLayerIDs (sampleEnv a) (sampleTree sel) [] [14] False = []"
  by (simp add: sample_eval del: set_filter set_map)

text \<open>
  A fourth click, at (50, 39) on the name badge of the artboard, and the layers below
  the selection at the clicks.
\<close>

lemma sample_covered_50_39:
  "getContainingLayerBounds (sampleEnv a) (sampleTree sel) (Finite 50) (Finite 39) = [sampleLayer sel 14]"
  by (simp add: sample_eval)

lemma sample_below:
  "getLayersBelowCurrentSelection (sampleEnv a) (sampleTree [10]) [sampleLayer [10] 10, sampleLayer [10] 11] = [11]"
  "getLayersBelowCurrentSelection (sampleEnv a) (sampleTree [10]) [sampleLayer [10] 14] = [14]"
  "getLayersBelowCurrentSelection (sampleEnv a) (sampleTree [10]) [sampleLayer [10] 10] = []"
  "getLayersBelowCurrentSelection (sampleEnv a) (sampleTree [11]) [sampleLayer [11] 10, sampleLayer [11] 11] = []"
  "getLayersBelowCurrentSelection (sampleEnv a) (sampleTree [11]) [] = []"
  by (simp_all add: getLayersBelowCurrentSelection_def sample_eval del: set_filter set_map)


text \<open>
  The stack document at (5, 5): nine layers of the stack are covered, more than the
  array of a set holds, or eight.
\<close>

lemma stack_covered:
  "getContainingLayerBounds (sampleEnv a) (stackTree [21, 22, 23, 28, 24, 25, 26, 27, 20])
     (Finite 5) (Finite 5) = map stackLayer [20, 21, 22, 23, 24, 25, 26, 27, 28]"
  "getContainingLayerBounds (sampleEnv a) (stackTree [22, 23, 28, 24, 25, 26, 27, 20])
     (Finite 5) (Finite 5) = map stackLayer [22, 23, 28, 24, 25, 26, 27, 20]"
  by (simp_all add: sample_eval)

lemma stack_below:
  "getLayersBelowCurrentSelection (sampleEnv a) (stackTree ids)
     [stackLayer 20, stackLayer 21, stackLayer 22, stackLayer 23, stackLayer 24,
      stackLayer 25, stackLayer 26, stackLayer 27, stackLayer 28] =
     [20, 21, 22, 23, 24, 25, 26, 27, 28]"
  "getLayersBelowCurrentSelection (sampleEnv a) (stackTree ids)
     [stackLayer 22, stackLayer 23, stackLayer 28, stackLayer 24, stackLayer 25,
      stackLayer 26, stackLayer 27, stackLayer 20] =
     [22, 23, 28, 24, 25, 26, 27, 20]"
  by (simp_all add: getLayersBelowCurrentSelection_def sample_eval del: set_filter set_map)

lemma loneLocked_fields [simp]:
  "tree_all loneLockedTree = [sampleLayer [13] 13]"
  "tree_top loneLockedTree = [sampleLayer [13] 13]"
  "tree_selected loneLockedTree = [sampleLayer [13] 13]"
  "tree_siblings loneLockedTree l = [sampleLayer [13] 13]"
  "doc_layers loneLockedDoc = loneLockedTree"
  by (simp_all add: loneLockedTree_def loneLockedDoc_def)

text \<open>The children to dive into and the parents to back out to, for some selections.\<close>

lemma sample_diveable:
  "getDiveableLayers (doc_layers (sampleDoc [10])) (tree_selected (doc_layers (sampleDoc [10]))) =
     [sampleLayer [10] 11, sampleLayer [10] 12]"
  "getDiveableLayers (doc_layers (sampleDoc [11])) (tree_selected (doc_layers (sampleDoc [11]))) = []"
  "getDiveableLayers (doc_layers (sampleDoc [13])) (tree_selected (doc_layers (sampleDoc [13]))) = []"
  "getDiveableLayers (doc_layers (sampleDoc [11, 12]))
     (tree_selected (doc_layers (sampleDoc [11, 12]))) = []"
  "getDiveableLayers (doc_layers (sampleDoc [])) (tree_selected (doc_layers (sampleDoc []))) = []"
  by (simp_all add: getDiveableLayers_def)

lemma sample_parents:
  "getSelectedLayerParents (doc_layers (sampleDoc [11, 12])) False = [sampleLayer [11, 12] 10]"
  "getSelectedLayerParents (doc_layers (sampleDoc [10])) False = []"
  "getSelectedLayerParents (doc_layers (sampleDoc [])) True = []"
  "getSelectedLayerParents (doc_layers (sampleDoc [10, 13])) True =
     [sampleLayer [10, 13] 10, sampleLayer [10, 13] 13]"
  "getSelectedLayerParents (doc_layers (sampleDoc [10])) True = [sampleLayer [10] 10]"
  by (simp_all add: getSelectedLayerParents_def Set_add_def)

section \<open>Sets, sorting and the clicked IDs\<close>

lemma set_foldl_Set_add: "set (foldl Set_add acc xs) = set acc \<union> set xs"
  by (induction xs arbitrary: acc) (auto simp: Set_add_def)

lemma distinct_foldl_Set_add: "distinct acc \<Longrightarrow> distinct (foldl Set_add acc xs)"
  by (induction xs arbitrary: acc) (auto simp: Set_add_def)

lemma set_Immutable_Set [simp]: "set (Immutable_Set place xs) = set xs"
  by (simp add: Immutable_Set_def Let_def set_foldl_Set_add)

lemma distinct_Immutable_Set [simp]: "distinct (Immutable_Set place xs)"
  by (simp add: Immutable_Set_def Let_def distinct_foldl_Set_add)

lemma foldl_Set_add_distinct: "distinct (acc @ xs) \<Longrightarrow> foldl Set_add acc xs = acc @ xs"
  by (induction xs arbitrary: acc) (auto simp: Set_add_def)

lemma length_foldl_Set_add: "length (foldl Set_add acc xs) \<le> length acc + length xs"
proof (induction xs arbitrary: acc)
  case Nil
  then show ?case by simp
next
  case (Cons x xs)
  have "length (Set_add acc x) \<le> Suc (length acc)"
    by (simp add: Set_add_def)
  with Cons [of "Set_add acc x"] show ?case by simp
qed

text \<open>Up to eight elements an \<open>Immutable.Set\<close> iterates in the order of insertion.\<close>

lemma Immutable_Set_small:
  "length xs \<le> 8 \<Longrightarrow> Immutable_Set place xs = foldl Set_add [] xs"
  using length_foldl_Set_add [of "[]" xs] by (simp add: Immutable_Set_def Let_def)

lemma Immutable_Set_small_distinct:
  "length xs \<le> 8 \<Longrightarrow> distinct xs \<Longrightarrow> Immutable_Set place xs = xs"
  by (simp add: Immutable_Set_small foldl_Set_add_distinct)

lemma set_covered_fold:
  "set (foldl (\<lambda>layerSet layer.
                 (case testedBounds e layerTree layer of
                    None \<Rightarrow> layerSet
                  | Some b \<Rightarrow> if contains e b x y then Set_add layerSet layer else layerSet))
          acc layers) =
     set acc \<union> {l \<in> set layers. \<exists>b. testedBounds e layerTree l = Some b \<and> contains e b x y}"
  by (induction layers arbitrary: acc) (auto simp: Set_add_def split: option.splits)

lemma set_getContainingLayerBounds:
  "set (getContainingLayerBounds e layerTree x y) =
     {l \<in> set (tree_all layerTree).
        \<exists>b. testedBounds e layerTree l = Some b \<and> contains e b x y}"
  by (simp add: getContainingLayerBounds_def set_covered_fold)

lemma set_coveredLayerIDs:
  "set (coveredLayerIDs e coveredLayers hitLayerIDs) = layer_id ` set coveredLayers \<union> set hitLayerIDs"
  by (simp add: coveredLayerIDs_def Set_pluck_def)

lemma sorted_coveredLayerIDs:
  "sorted (map (indexOf hitLayerIDs) (coveredLayerIDs e coveredLayers hitLayerIDs))"
  by (simp add: coveredLayerIDs_def)

lemma set_clicked_shallow:
  "set (clickedSelectableLayerIDs e layerTree coveredLayers hitLayerIDs False) =
     layer_id ` (set (tree_selectable layerTree) \<inter> set coveredLayers)"
  by (auto simp: clickedSelectableLayerIDs_def intersection_def pluck_def set_coveredLayerIDs)

lemma sorted_clicked_shallow:
  "sorted (map (indexOf hitLayerIDs)
     (clickedSelectableLayerIDs e layerTree coveredLayers hitLayerIDs False))"
  by (simp add: clickedSelectableLayerIDs_def intersection_def sorted_filter
      sorted_coveredLayerIDs)

lemma hitLayerMap_keys:
  "(foldl (\<lambda>layerMap i. layerMap(i \<mapsto> True)) m ids) k \<noteq> None \<longleftrightarrow>
     k \<in> set ids \<or> m k \<noteq> None"
  by (induction ids arbitrary: m) auto

lemma clicked_deep:
  "clickedSelectableLayerIDs e layerTree coveredLayers hitLayerIDs True =
     map layer_id
       (filter (\<lambda>l. layer_id l \<in> layer_id ` set coveredLayers \<union> set hitLayerIDs)
          (tree_leaves layerTree))"
  by (simp add: clickedSelectableLayerIDs_def getLeafLayersWithID_def pluck_def
      hitLayerMap_keys set_coveredLayerIDs del: not_None_eq)

lemma sorted_key_last:
  "sorted (map f xs) \<Longrightarrow> x \<in> set xs \<Longrightarrow> f x \<le> f (last xs)"
  by (induction xs) (auto split: if_splits)

lemma clickCommand_handler:
  assumes "transformWindowToCanvas e x y = (cx, cy)"
    and "getHitLayerIDs e (doc_id doc) cx cy = Resolved hitLayerIDs"
  shows "clickCommand e doc x y deep add = clickHandler e doc (cx, cy) deep add hitLayerIDs"
  using assms by (simp add: clickCommand_def)

lemma isOnlySelectedLayer_iff:
  "isOnlySelectedLayer layerTree layer \<longleftrightarrow> tree_selected layerTree = [layer]"
  by (cases "tree_selected layerTree") (auto simp: isOnlySelectedLayer_def)

section \<open>Children and parents of the selection\<close>

lemma set_getDiveableLayers:
  "set (getDiveableLayers layerTree parentLayers) =
     {c. layer_superSelectable c \<and> (\<exists>p \<in> set parentLayers. c \<in> set (tree_children layerTree p))}"
  by (auto simp: getDiveableLayers_def)

lemma set_parents_fold:
  "set (foldl (\<lambda>parents layer.
              (case tree_parent layerTree layer of
                 None \<Rightarrow> if noDeselect then Set_add parents layer else parents
               | Some parent \<Rightarrow> Set_add parents parent)) acc sel) =
   set acc \<union> {p. \<exists>l \<in> set sel. tree_parent layerTree l = Some p} \<union>
     (if noDeselect then {l \<in> set sel. tree_parent layerTree l = None} else {})"
  by (induction sel arbitrary: acc) (auto simp: Set_add_def split: option.splits)

lemma distinct_parents_fold:
  "distinct acc \<Longrightarrow> distinct (foldl (\<lambda>parents layer.
              (case tree_parent layerTree layer of
                 None \<Rightarrow> if noDeselect then Set_add parents layer else parents
               | Some parent \<Rightarrow> Set_add parents parent)) acc sel)"
  by (induction sel arbitrary: acc) (auto simp: Set_add_def split: option.splits)

lemma set_getSelectedLayerParents:
  "set (getSelectedLayerParents layerTree noDeselect) =
     {p. \<exists>l \<in> set (tree_selected layerTree). tree_parent layerTree l = Some p} \<union>
     (if noDeselect then {l \<in> set (tree_selected layerTree). tree_parent layerTree l = None} else {})"
  by (simp add: getSelectedLayerParents_def set_parents_fold)

lemma distinct_getSelectedLayerParents:
  "distinct (getSelectedLayerParents layerTree noDeselect)"
  by (simp add: getSelectedLayerParents_def distinct_parents_fold)

lemma set_ancestors_fold:
  "set (foldl (\<lambda>layerSet layer. foldl Set_add layerSet (tree_ancestors layerTree layer)) acc sel) =
     set acc \<union> {a. \<exists>s \<in> set sel. a \<in> set (tree_ancestors layerTree s)}"
  by (induction sel arbitrary: acc) (auto simp: set_foldl_Set_add)

lemma set_getLayersBelowCurrentSelection:
  "set (getLayersBelowCurrentSelection e layerTree coveredLayers) =
     layer_id ` {l \<in> set coveredLayers. \<not> layer_locked l \<and> layer_kind l \<noteq> GROUPEND \<and>
                   \<not> (\<exists>s \<in> set (tree_selected layerTree). l \<in> set (tree_ancestors layerTree s))}"
  by (auto simp: getLayersBelowCurrentSelection_def Set_pluck_def set_ancestors_fold Let_def)

text \<open>
  With at most eight layers under the point, the IDs below the selection stand in the
  order in which \<open>layerTree.all\<close> lists their layers.
\<close>

lemma getLayersBelowCurrentSelection_small:
  assumes "distinct coveredLayers" and "length coveredLayers \<le> 8"
  shows "getLayersBelowCurrentSelection e layerTree coveredLayers =
     foldl Set_add []
       (map layer_id
          (filter (\<lambda>l. \<not> layer_locked l \<and> layer_kind l \<noteq> GROUPEND \<and>
                        \<not> (\<exists>s \<in> set (tree_selected layerTree).
                              l \<in> set (tree_ancestors layerTree s)))
             coveredLayers))"
proof -
  let ?below = "filter (\<lambda>l. \<not> layer_locked l \<and> layer_kind l \<noteq> GROUPEND \<and>
                        \<not> (\<exists>s \<in> set (tree_selected layerTree).
                              l \<in> set (tree_ancestors layerTree s)))
             coveredLayers"
  have "length ?below \<le> length coveredLayers" by simp
  then have short: "length ?below \<le> 8" using assms(2) by linarith
  have "distinct ?below" using assms(1) by simp
  then have layers: "Immutable_Set (hashPlace_layer e) ?below = ?below"
    using short by (rule Immutable_Set_small_distinct [rotated])
  have "length (map layer_id ?below) \<le> 8" using short by simp
  then have ids: "Immutable_Set (hashPlace_id e) (map layer_id ?below) =
      foldl Set_add [] (map layer_id ?below)"
    by (rule Immutable_Set_small)
  have "getLayersBelowCurrentSelection e layerTree coveredLayers =
      Immutable_Set (hashPlace_id e)
        (map layer_id (Immutable_Set (hashPlace_layer e) ?below))"
    by (simp add: getLayersBelowCurrentSelection_def Set_pluck_def set_ancestors_fold Let_def)
  then show ?thesis using layers ids by simp
qed

lemma doubleClickCommand_handler:
  assumes "transformWindowToCanvas e x y = (cx, cy)"
    and "getHitLayerIDs e (doc_id doc) cx cy = Resolved hitLayerIDs"
  shows "doubleClickCommand e doc x y = doubleClickHandler e doc x y (cx, cy) hitLayerIDs"
  using assms by (simp add: doubleClickCommand_def)

section \<open>Positions in a list, and the kinds without an edit mode\<close>

lemma indexOf_range: "- 1 \<le> indexOf xs x \<and> indexOf xs x < int (length xs)"
  by (induction xs) (auto simp: Let_def)

lemma indexOf_member: "x \<in> set xs \<Longrightarrow> 0 \<le> indexOf xs x \<and> xs ! nat (indexOf xs x) = x"
proof (induction xs)
  case Nil
  then show ?case by simp
next
  case (Cons a xs)
  show ?case
  proof (cases "a = x")
    case True
    then show ?thesis by simp
  next
    case False
    with Cons have "0 \<le> indexOf xs x \<and> xs ! nat (indexOf xs x) = x" by simp
    with False show ?thesis by (simp add: Let_def nat_add_distrib)
  qed
qed

lemma List_get_js_rem:
  assumes "xs \<noteq> []"
  shows "List_get xs (js_rem a (int (length xs))) = Some (xs ! nat (a mod int (length xs)))"
proof -
  let ?n = "int (length xs)"
  have n: "0 < ?n" using assms by simp
  show ?thesis
  proof (cases "0 \<le> a")
    case True
    then have "js_rem a ?n = Some (a mod ?n)"
      using n by (simp add: js_rem_def sgn_if)
    moreover have "0 \<le> a mod ?n" "a mod ?n < ?n" using n by simp_all
    ultimately show ?thesis by (simp add: List_get_def Let_def)
  next
    case False
    then have neg: "a < 0" by simp
    have r: "js_rem a ?n = Some (- ((- a) mod ?n))"
      using n neg by (simp add: js_rem_def sgn_if)
    show ?thesis
    proof (cases "a mod ?n = 0")
      case True
      then have "(- a) mod ?n = 0" by (simp add: zmod_zminus1_eq_if)
      then show ?thesis using r n True by (simp add: List_get_def Let_def)
    next
      case False
      then have m: "(- a) mod ?n = ?n - a mod ?n" by (simp add: zmod_zminus1_eq_if)
      have "0 \<le> a mod ?n" "a mod ?n < ?n"
        using n by simp_all
      with False have "0 < a mod ?n" "a mod ?n < ?n"
        by simp_all
      then show ?thesis using r m by (simp add: List_get_def Let_def)
    qed
  qed
qed

lemma editLayerAt_other:
  "layer_kind layer \<noteq> VECTOR \<and> layer_kind layer \<noteq> TEXT \<and> layer_kind layer \<noteq> SMARTOBJECT \<Longrightarrow>
     editLayerAt e layer x y = ([], Resolved ())"
  by (cases "layer_kind layer") (simp_all add: editLayerAt_def)

lemma editLayerAtCenter_other:
  "layer_kind layer \<noteq> VECTOR \<and> layer_kind layer \<noteq> TEXT \<and> layer_kind layer \<noteq> SMARTOBJECT \<Longrightarrow>
     editLayerAtCenter e layer = ([], Resolved ())"
  by (cases "layer_bounds layer") (simp_all add: editLayerAtCenter_def Let_def editLayerAt_other)

lemma editLayerCommand_other:
  "layer_kind layer \<noteq> VECTOR \<and> layer_kind layer \<noteq> TEXT \<and> layer_kind layer \<noteq> SMARTOBJECT \<Longrightarrow>
     editLayerCommand e doc layer x y = ([], Resolved ())"
  by (cases x; cases y)
    (simp_all add: editLayerCommand_def editLayerAt_other editLayerAtCenter_other)

lemma editLayerCommand_no_coordinates:
  "x = None \<or> y = None \<or> x = Some (Finite 0) \<or> y = Some (Finite 0) \<or>
   x = Some NaN \<or> y = Some NaN \<Longrightarrow> \<not> layer_isBackground layer \<Longrightarrow>
     editLayerCommand e doc layer x y = editLayerAtCenter e layer"
  by (cases x; cases y) (auto simp: editLayerCommand_def falsy_def)

section \<open>Properties\<close>

subsection \<open>Marquee selection\<close>

text \<open>
  C7. For every marquee selection result: if the list of layer IDs is empty and add is
  false, marqueeSelectCommand deselects all layers; if the list is non-empty, it selects
  the corresponding layers (each ID looked up with byID) with modifier "add" when add is
  true and "select" otherwise; if the list is empty and add is true, it performs no
  selection action; in every case the marquee UI event is dispatched with enabled=false
  first.
\<close>

theorem marqueeSelectCommand_cases:
  "(ids = [] \<and> \<not> add \<longrightarrow>
      marqueeSelectCommand doc ids add =
        ([Dispatch_SUPERSELECT_MARQUEE False, LogSuperselect ''marqueeDeselect'',
          DeselectAll doc], Resolved ())) \<and>
   (ids \<noteq> [] \<longrightarrow>
      marqueeSelectCommand doc ids add =
        ([Dispatch_SUPERSELECT_MARQUEE False, LogSuperselect ''marqueeSelect'',
          Select doc (LayerList (map (tree_byID (doc_layers doc)) ids))
            (Some (if add then ''add'' else ''select''))], Resolved ())) \<and>
   (ids = [] \<and> add \<longrightarrow>
      marqueeSelectCommand doc ids add = ([Dispatch_SUPERSELECT_MARQUEE False], Resolved ())) \<and>
   (\<exists>rest. fst (marqueeSelectCommand doc ids add) = Dispatch_SUPERSELECT_MARQUEE False # rest)"
  by (simp add: marqueeSelectCommand_def Let_def)

theorem marqueeSelectCommand_cases_witness:
  "marqueeSelectCommand (sampleDoc [10]) [] False =
     ([Dispatch_SUPERSELECT_MARQUEE False, LogSuperselect ''marqueeDeselect'',
       DeselectAll (sampleDoc [10])], Resolved ()) \<and>
   marqueeSelectCommand (sampleDoc [10]) [11, 7] True =
     ([Dispatch_SUPERSELECT_MARQUEE False, LogSuperselect ''marqueeSelect'',
       Select (sampleDoc [10]) (LayerList [Some (sampleLayer [10] 11), None]) (Some ''add'')],
      Resolved ()) \<and>
   marqueeSelectCommand (sampleDoc [10]) [12] False =
     ([Dispatch_SUPERSELECT_MARQUEE False, LogSuperselect ''marqueeSelect'',
       Select (sampleDoc [10]) (LayerList [Some (sampleLayer [10] 12)]) (Some ''select'')],
      Resolved ()) \<and>
   marqueeSelectCommand (sampleDoc [10]) [] True =
     ([Dispatch_SUPERSELECT_MARQUEE False], Resolved ())"
  using marqueeSelectCommand_cases [of "[]" False "sampleDoc [10]"]
    marqueeSelectCommand_cases [of "[11, 7]" True "sampleDoc [10]"]
    marqueeSelectCommand_cases [of "[12]" False "sampleDoc [10]"]
    marqueeSelectCommand_cases [of "[]" True "sampleDoc [10]"]
  by simp

subsection \<open>The hit test\<close>

text \<open>
  C2. For every document ID and point (x, y), the hit-test query getHitLayerIDs never
  rejects: when the call to the external process fails, the returned promise resolves
  with the empty list of layer IDs, and when it succeeds it resolves with the list of
  IDs reported under the key layersHit (the empty list when the result has no such key).
\<close>

theorem getHitLayerIDs_never_rejects:
  "getHitLayerIDs e ident x y \<noteq> Rejected \<and>
   (playObject e (LayerIDsAtPoint (DocumentByID ident) x y) = Rejected \<longrightarrow>
      getHitLayerIDs e ident x y = Resolved []) \<and>
   (playObject e (LayerIDsAtPoint (DocumentByID ident) x y) = Resolved obj \<and>
    obj ''layersHit'' = Some ids \<longrightarrow>
      getHitLayerIDs e ident x y = Resolved ids) \<and>
   (playObject e (LayerIDsAtPoint (DocumentByID ident) x y) = Resolved obj \<and>
    obj ''layersHit'' = None \<longrightarrow>
      getHitLayerIDs e ident x y = Resolved [])"
  by (cases "playObject e (LayerIDsAtPoint (DocumentByID ident) x y)")
    (simp_all add: getHitLayerIDs_def promise_then_def promise_get_def Immutable_List_def)

theorem getHitLayerIDs_never_rejects_witness:
  "getHitLayerIDs (sampleEnv Rejected) 9 (Finite 1) (Finite 1) = Resolved [] \<and>
   getHitLayerIDs (sampleEnv (Resolved (layersHit [10, 11]))) 9 (Finite 1) (Finite 1) = Resolved [10, 11] \<and>
   getHitLayerIDs (sampleEnv (Resolved (\<lambda>key. None))) 9 (Finite 1) (Finite 1) = Resolved []"
  using getHitLayerIDs_never_rejects [of "sampleEnv Rejected" 9 "Finite 1" "Finite 1"]
    getHitLayerIDs_never_rejects
      [of "sampleEnv (Resolved (layersHit [10, 11]))" 9 "Finite 1" "Finite 1" "layersHit [10, 11]" "[10, 11]"]
    getHitLayerIDs_never_rejects
      [of "sampleEnv (Resolved (\<lambda>key. None))" 9 "Finite 1" "Finite 1" "\<lambda>key. None"]
  by (simp add: layersHit_def)

subsection \<open>Single click\<close>

text \<open>
  In the theorems on \<open>clickCommand\<close>, \<open>(cx, cy)\<close> is the click in canvas coordinates,
  \<open>hitLayerIDs\<close> what the hit test resolved with, \<open>clicked\<close> the list
  \<open>clickedSelectableLayerIDs\<close> that the handler computes and \<open>topLayer\<close> the layer that
  \<open>byID\<close> finds for its last element.
\<close>

text \<open>
  C8. For every plain (add=false) single click whose top z-order hit layer is already
  selected, clickCommand dispatches no selection action at all (its list of effects is
  empty) and the promise resolves true. This holds whether the click is deep or not.
\<close>

theorem click_plain_on_selected:
  assumes "transformWindowToCanvas e x y = (cx, cy)"
    and "getHitLayerIDs e (doc_id doc) cx cy = Resolved hitLayerIDs"
    and "clickedSelectableLayerIDs e (doc_layers doc)
           (getContainingLayerBounds e (doc_layers doc) cx cy) hitLayerIDs deep = clicked"
    and "clicked \<noteq> []"
    and "tree_byID (doc_layers doc) (last clicked) = Some topLayer"
    and "layer_selected topLayer"
  shows "clickCommand e doc x y deep False = ([], Resolved True)"
  using assms by (simp add: clickCommand_handler clickHandler_def clickSelect_def)

theorem click_plain_on_selected_witness:
  "clickCommand (sampleEnv (Resolved (layersHit [10, 11]))) (sampleDoc [11, 12]) (Finite 1) (Finite 1) False False =
     ([], Resolved True) \<and>
   clickCommand (sampleEnv (Resolved (layersHit [10, 11]))) (sampleDoc [11, 12]) (Finite 1) (Finite 1) True False =
     ([], Resolved True)"
  using click_plain_on_selected [where e = "sampleEnv (Resolved (layersHit [10, 11]))"
      and doc = "sampleDoc [11, 12]" and x = "Finite 1" and y = "Finite 1" and cx = "Finite 1" and cy = "Finite 1"
      and hitLayerIDs = "[10, 11]" and deep = False and clicked = "[10, 11]"
      and topLayer = "sampleLayer [11, 12] 11"]
    click_plain_on_selected [where e = "sampleEnv (Resolved (layersHit [10, 11]))"
      and doc = "sampleDoc [11, 12]" and x = "Finite 1" and y = "Finite 1" and cx = "Finite 1" and cy = "Finite 1"
      and hitLayerIDs = "[10, 11]" and deep = True and clicked = "[11]"
      and topLayer = "sampleLayer [11, 12] 11"]
  by (simp add: sample_covered_1_1 sample_clicked_1_1)

text \<open>
  C3. For every single click with the add modifier (add=true): if the top hit layer is
  selected and is the only selected layer of the tree, clickCommand deselects all layers
  and resolves false; if it is selected and the selection is anything else, that layer
  alone is deselected (modifier "deselect"); and if the top hit layer is not selected, it
  is added to the selection (modifier "add"). The last two resolve true.
\<close>

theorem click_add_cases:
  assumes "transformWindowToCanvas e x y = (cx, cy)"
    and "getHitLayerIDs e (doc_id doc) cx cy = Resolved hitLayerIDs"
    and "clickedSelectableLayerIDs e (doc_layers doc)
           (getContainingLayerBounds e (doc_layers doc) cx cy) hitLayerIDs deep = clicked"
    and "clicked \<noteq> []"
    and "tree_byID (doc_layers doc) (last clicked) = Some topLayer"
  shows
    "(layer_selected topLayer \<and> tree_selected (doc_layers doc) = [topLayer] \<longrightarrow>
        clickCommand e doc x y deep True =
          ([LogSuperselect ''deselect_all'', DeselectAll doc], Resolved False)) \<and>
     (layer_selected topLayer \<and> tree_selected (doc_layers doc) \<noteq> [topLayer] \<longrightarrow>
        clickCommand e doc x y deep True =
          ([LogSuperselect ((if deep then ''click_deep_'' else ''click_'') @ ''deselect''),
            Select doc (OneLayer (Some topLayer)) (Some ''deselect'')], Resolved True)) \<and>
     (\<not> layer_selected topLayer \<longrightarrow>
        clickCommand e doc x y deep True =
          ([LogSuperselect ((if deep then ''click_deep_'' else ''click_'') @ ''add''),
            Select doc (OneLayer (Some topLayer)) (Some ''add'')], Resolved True))"
  using assms
  by (simp add: clickCommand_handler clickHandler_def clickSelect_def isOnlySelectedLayer_iff)

theorem click_add_cases_witness:
  "clickCommand (sampleEnv (Resolved (layersHit [10, 11]))) (sampleDoc [11]) (Finite 1) (Finite 1) False True =
     ([LogSuperselect ''deselect_all'', DeselectAll (sampleDoc [11])], Resolved False) \<and>
   clickCommand (sampleEnv (Resolved (layersHit [10, 11]))) (sampleDoc [11, 12]) (Finite 1) (Finite 1) False True =
     ([LogSuperselect ''click_deselect'',
       Select (sampleDoc [11, 12]) (OneLayer (Some (sampleLayer [11, 12] 11))) (Some ''deselect'')],
      Resolved True) \<and>
   clickCommand (sampleEnv (Resolved (layersHit [10, 11]))) (sampleDoc [12]) (Finite 1) (Finite 1) True True =
     ([LogSuperselect ''click_deep_add'',
       Select (sampleDoc [12]) (OneLayer (Some (sampleLayer [12] 11))) (Some ''add'')],
      Resolved True)"
  using click_add_cases [where e = "sampleEnv (Resolved (layersHit [10, 11]))"
      and doc = "sampleDoc [11]" and x = "Finite 1" and y = "Finite 1" and cx = "Finite 1" and cy = "Finite 1"
      and hitLayerIDs = "[10, 11]" and deep = False and clicked = "[10, 11]"
      and topLayer = "sampleLayer [11] 11"]
    click_add_cases [where e = "sampleEnv (Resolved (layersHit [10, 11]))"
      and doc = "sampleDoc [11, 12]" and x = "Finite 1" and y = "Finite 1" and cx = "Finite 1" and cy = "Finite 1"
      and hitLayerIDs = "[10, 11]" and deep = False and clicked = "[10, 11]"
      and topLayer = "sampleLayer [11, 12] 11"]
    click_add_cases [where e = "sampleEnv (Resolved (layersHit [10, 11]))"
      and doc = "sampleDoc [12]" and x = "Finite 1" and y = "Finite 1" and cx = "Finite 1" and cy = "Finite 1"
      and hitLayerIDs = "[10, 11]" and deep = True and clicked = "[11]"
      and topLayer = "sampleLayer [12] 11"]
  by (simp add: sample_covered_1_1 sample_clicked_1_1)

text \<open>
  C1 says that a plain click selects the top selectable layer under the point whenever
  there is one, where a layer under the point is one in the intersection of the covered
  and hit layers with the selectable ones. Four clicks on the sample document show
  otherwise. At (1, 1) the top layer 11 is selectable, covered and hit, but already
  selected together with layer 12: nothing is fired and the selection stays as it is.
  At (8, 1) the selectable group 10 is covered and hit, but the click is deep and looks
  at the leaves only: all layers are deselected. At (50, 50) the selectable artboard 14
  is hit, but an artboard counts as covered at its name badge only: nothing is selected.
  At (1, 1) again, with a hit test that reports no layer, the covered layer 11 is
  selected all the same.
\<close>

theorem click_plain_counterexample:
  "sampleLayer [11, 12] 11 \<in> set (tree_selectable (sampleTree [11, 12])) \<and>
   clickedSelectableLayerIDs (sampleEnv (Resolved (layersHit [10, 11]))) (sampleTree [11, 12])
     (getContainingLayerBounds (sampleEnv (Resolved (layersHit [10, 11]))) (sampleTree [11, 12])
        (Finite 1) (Finite 1))
     [10, 11] False = [10, 11] \<and>
   clickCommand (sampleEnv (Resolved (layersHit [10, 11]))) (sampleDoc [11, 12]) (Finite 1) (Finite 1) False False =
     ([], Resolved True) \<and>
   sampleLayer [11] 10 \<in> set (tree_selectable (sampleTree [11])) \<and>
   sampleLayer [11] 10 \<in>
     set (getContainingLayerBounds (sampleEnv (Resolved (layersHit [10]))) (sampleTree [11])
            (Finite 8) (Finite 1)) \<and>
   clickCommand (sampleEnv (Resolved (layersHit [10]))) (sampleDoc [11]) (Finite 8) (Finite 1) True False =
     ([LogSuperselect ''deselect_all'', DeselectAll (sampleDoc [11])], Resolved False) \<and>
   sampleLayer [] 14 \<in> set (tree_selectable (sampleTree [])) \<and>
   clickCommand (sampleEnv (Resolved (layersHit [14]))) (sampleDoc []) (Finite 50) (Finite 50) False False =
     ([], Resolved False) \<and>
   clickCommand (sampleEnv (Resolved (layersHit []))) (sampleDoc []) (Finite 1) (Finite 1) False False =
     ([LogSuperselect ''click_select'',
       Select (sampleDoc []) (OneLayer (Some (sampleLayer [] 11))) (Some ''select'')],
      Resolved True)"
  by (simp add: clickCommand_def clickHandler_def clickSelect_def
      sample_covered_1_1 sample_clicked_1_1 sample_covered_8_1 sample_clicked_8_1
      sample_covered_50_50 sample_clicked_50_50 sample_clicked_unreported)

text \<open>
  C1, amended. For every document and plain (add=false) single click at a point, with
  the hit IDs the hit test resolved with. A layer is covered when it is a layer of the
  document whose tested bounds (the name badge of an artboard, the child bounds of any
  other layer) contain the point. The clicked IDs are, for a click that is not deep,
  the IDs of the document's selectable layers that are covered, whether the hit test
  reports them or not, none of them later in the hit-test list than the last one; for a
  deep click they are the IDs of the leaves whose ID is the ID of a covered layer or a
  hit ID, in the order of the leaves. If there is a clicked ID, the top layer is the
  layer that byID finds for the last one: if it is not selected, clickCommand selects it
  with modifier "select" and resolves true, and if it is selected, it fires nothing and
  resolves true. If there is no clicked ID, it deselects all layers and resolves false
  when the selection is non-empty, and performs no action and resolves false when the
  selection is empty.
\<close>

theorem click_plain_cases:
  assumes "transformWindowToCanvas e x y = (cx, cy)"
    and "getHitLayerIDs e (doc_id doc) cx cy = Resolved hitLayerIDs"
    and "getContainingLayerBounds e (doc_layers doc) cx cy = coveredLayers"
    and "clickedSelectableLayerIDs e (doc_layers doc) coveredLayers hitLayerIDs deep = clicked"
  shows
    "set coveredLayers =
       {l \<in> set (tree_all (doc_layers doc)).
          \<exists>b. (if layer_isArtboard l then
                  getNameBadgeBounds e (layer_bounds l)
                    (num_mul e (zoomCanvasToWindow e (Finite 1)) (devicePixelRatio e))
                else tree_childBounds (doc_layers doc) l) = Some b \<and>
               contains e b cx cy} \<and>
     (\<not> deep \<longrightarrow>
        set clicked = layer_id ` (set (tree_selectable (doc_layers doc)) \<inter> set coveredLayers) \<and>
        (\<forall>i \<in> set clicked. indexOf hitLayerIDs i \<le> indexOf hitLayerIDs (last clicked))) \<and>
     (deep \<longrightarrow>
        clicked =
          map layer_id
            (filter (\<lambda>l. layer_id l \<in> layer_id ` set coveredLayers \<union> set hitLayerIDs)
               (tree_leaves (doc_layers doc)))) \<and>
     (clicked \<noteq> [] \<and> tree_byID (doc_layers doc) (last clicked) = Some topLayer \<and>
      \<not> layer_selected topLayer \<longrightarrow>
        clickCommand e doc x y deep False =
          ([LogSuperselect ((if deep then ''click_deep_'' else ''click_'') @ ''select''),
            Select doc (OneLayer (Some topLayer)) (Some ''select'')], Resolved True)) \<and>
     (clicked \<noteq> [] \<and> tree_byID (doc_layers doc) (last clicked) = Some topLayer \<and>
      layer_selected topLayer \<longrightarrow>
        clickCommand e doc x y deep False = ([], Resolved True)) \<and>
     (clicked = [] \<and> tree_selected (doc_layers doc) \<noteq> [] \<longrightarrow>
        clickCommand e doc x y deep False =
          ([LogSuperselect ''deselect_all'', DeselectAll doc], Resolved False)) \<and>
     (clicked = [] \<and> tree_selected (doc_layers doc) = [] \<longrightarrow>
        clickCommand e doc x y deep False = ([], Resolved False))"
proof -
  have covered: "set coveredLayers =
       {l \<in> set (tree_all (doc_layers doc)).
          \<exists>b. (if layer_isArtboard l then
                  getNameBadgeBounds e (layer_bounds l)
                    (num_mul e (zoomCanvasToWindow e (Finite 1)) (devicePixelRatio e))
                else tree_childBounds (doc_layers doc) l) = Some b \<and>
               contains e b cx cy}"
    using assms(3) set_getContainingLayerBounds [of e "doc_layers doc" cx cy]
    by (simp add: testedBounds_def Let_def)
  have shallow: "\<not> deep \<longrightarrow>
        set clicked = layer_id ` (set (tree_selectable (doc_layers doc)) \<inter> set coveredLayers) \<and>
        (\<forall>i \<in> set clicked. indexOf hitLayerIDs i \<le> indexOf hitLayerIDs (last clicked))"
  proof
    assume "\<not> deep"
    then have c: "clickedSelectableLayerIDs e (doc_layers doc) coveredLayers hitLayerIDs False =
        clicked"
      using assms(4) by simp
    have "set clicked =
        layer_id ` (set (tree_selectable (doc_layers doc)) \<inter> set coveredLayers)"
      using c set_clicked_shallow by blast
    moreover have "sorted (map (indexOf hitLayerIDs) clicked)"
      using c sorted_clicked_shallow by blast
    then have "\<forall>i \<in> set clicked. indexOf hitLayerIDs i \<le> indexOf hitLayerIDs (last clicked)"
      by (auto intro: sorted_key_last)
    ultimately show "set clicked =
        layer_id ` (set (tree_selectable (doc_layers doc)) \<inter> set coveredLayers) \<and>
        (\<forall>i \<in> set clicked. indexOf hitLayerIDs i \<le> indexOf hitLayerIDs (last clicked))"
      by simp
  qed
  have leaves: "deep \<longrightarrow>
        clicked =
          map layer_id
            (filter (\<lambda>l. layer_id l \<in> layer_id ` set coveredLayers \<union> set hitLayerIDs)
               (tree_leaves (doc_layers doc)))"
    using assms(4) clicked_deep [of e "doc_layers doc" coveredLayers hitLayerIDs] by auto
  have run: "clickCommand e doc x y deep False =
      clickHandler e doc (cx, cy) deep False hitLayerIDs"
    using assms(1,2) by (rule clickCommand_handler)
  have fired: "clicked \<noteq> [] \<and> tree_byID (doc_layers doc) (last clicked) = Some topLayer \<and>
      \<not> layer_selected topLayer \<longrightarrow>
        clickCommand e doc x y deep False =
          ([LogSuperselect ((if deep then ''click_deep_'' else ''click_'') @ ''select''),
            Select doc (OneLayer (Some topLayer)) (Some ''select'')], Resolved True)"
    using assms(3,4) by (simp add: run clickHandler_def clickSelect_def)
  have kept: "clicked \<noteq> [] \<and> tree_byID (doc_layers doc) (last clicked) = Some topLayer \<and>
      layer_selected topLayer \<longrightarrow>
        clickCommand e doc x y deep False = ([], Resolved True)"
    using assms(3,4) by (simp add: run clickHandler_def clickSelect_def)
  have deselected: "clicked = [] \<and> tree_selected (doc_layers doc) \<noteq> [] \<longrightarrow>
        clickCommand e doc x y deep False =
          ([LogSuperselect ''deselect_all'', DeselectAll doc], Resolved False)"
    using assms(3,4) by (simp add: run clickHandler_def)
  have idle: "clicked = [] \<and> tree_selected (doc_layers doc) = [] \<longrightarrow>
        clickCommand e doc x y deep False = ([], Resolved False)"
    using assms(3,4) by (simp add: run clickHandler_def)
  show ?thesis
    by (intro conjI covered shallow leaves fired kept deselected idle)
qed

theorem click_plain_cases_witness:
  "clickCommand (sampleEnv (Resolved (layersHit [10, 11]))) (sampleDoc [12])
     (Finite 1) (Finite 1) False False =
     ([LogSuperselect ''click_select'',
       Select (sampleDoc [12]) (OneLayer (Some (sampleLayer [12] 11))) (Some ''select'')],
      Resolved True) \<and>
   clickCommand (sampleEnv (Resolved (layersHit [10, 11]))) (sampleDoc [12])
     (Finite 1) (Finite 1) True False =
     ([LogSuperselect ''click_deep_select'',
       Select (sampleDoc [12]) (OneLayer (Some (sampleLayer [12] 11))) (Some ''select'')],
      Resolved True) \<and>
   clickCommand (sampleEnv (Resolved (layersHit [10, 11]))) (sampleDoc [11])
     (Finite 1) (Finite 1) True False = ([], Resolved True) \<and>
   clickCommand (sampleEnv (Resolved (layersHit [14]))) (sampleDoc [12])
     (Finite 50) (Finite 50) False False =
     ([LogSuperselect ''deselect_all'', DeselectAll (sampleDoc [12])], Resolved False) \<and>
   clickCommand (sampleEnv (Resolved (layersHit [14]))) (sampleDoc [])
     (Finite 50) (Finite 50) False False = ([], Resolved False)"
  using
    click_plain_cases [where e = "sampleEnv (Resolved (layersHit [10, 11]))"
      and doc = "sampleDoc [12]" and x = "Finite 1" and y = "Finite 1" and deep = False
      and topLayer = "sampleLayer [12] 11",
      OF sampleEnv_fields(1) sample_hit refl refl,
      THEN conjunct2, THEN conjunct2, THEN conjunct2]
    click_plain_cases [where e = "sampleEnv (Resolved (layersHit [10, 11]))"
      and doc = "sampleDoc [12]" and x = "Finite 1" and y = "Finite 1" and deep = True
      and topLayer = "sampleLayer [12] 11",
      OF sampleEnv_fields(1) sample_hit refl refl,
      THEN conjunct2, THEN conjunct2, THEN conjunct2]
    click_plain_cases [where e = "sampleEnv (Resolved (layersHit [10, 11]))"
      and doc = "sampleDoc [11]" and x = "Finite 1" and y = "Finite 1" and deep = True
      and topLayer = "sampleLayer [11] 11",
      OF sampleEnv_fields(1) sample_hit refl refl,
      THEN conjunct2, THEN conjunct2, THEN conjunct2]
    click_plain_cases [where e = "sampleEnv (Resolved (layersHit [14]))"
      and doc = "sampleDoc [12]" and x = "Finite 50" and y = "Finite 50" and deep = False,
      OF sampleEnv_fields(1) sample_hit refl refl,
      THEN conjunct2, THEN conjunct2, THEN conjunct2]
    click_plain_cases [where e = "sampleEnv (Resolved (layersHit [14]))"
      and doc = "sampleDoc []" and x = "Finite 50" and y = "Finite 50" and deep = False,
      OF sampleEnv_fields(1) sample_hit refl refl,
      THEN conjunct2, THEN conjunct2, THEN conjunct2]
  by (simp add: sample_covered_1_1 sample_clicked_1_1 sample_covered_50_50 sample_clicked_50_50)

subsection \<open>Diving in and backing out\<close>

text \<open>
  C6. For every document, diveInCommand: if the selected layers have at least one
  superSelectable child, it selects the first such child; otherwise, if exactly one
  layer is selected and that layer is not locked, it enters edit mode for that layer
  (without coordinates); if the single selected layer is locked, or the selection size
  differs from one, it performs no action.
\<close>

theorem diveInCommand_cases:
  assumes "getDiveableLayers (doc_layers doc) (tree_selected (doc_layers doc)) = diveableLayers"
  shows
    "set diveableLayers =
       {c. layer_superSelectable c \<and>
           (\<exists>p \<in> set (tree_selected (doc_layers doc)). c \<in> set (tree_children (doc_layers doc) p))} \<and>
     (diveableLayers \<noteq> [] \<longrightarrow>
        diveInCommand doc =
          ([LogSuperselect ''key_dive_in'',
            Select doc (OneLayer (Some (hd diveableLayers))) None], Resolved ())) \<and>
     (diveableLayers = [] \<and> tree_selected (doc_layers doc) = [topLayer] \<and>
      \<not> layer_locked topLayer \<longrightarrow>
        diveInCommand doc =
          ([LogSuperselect ''key_edit'', EditLayer doc topLayer None None], Resolved ())) \<and>
     (diveableLayers = [] \<and> tree_selected (doc_layers doc) = [topLayer] \<and>
      layer_locked topLayer \<longrightarrow>
        diveInCommand doc = ([], Resolved ())) \<and>
     (diveableLayers = [] \<and> length (tree_selected (doc_layers doc)) \<noteq> 1 \<longrightarrow>
        diveInCommand doc = ([], Resolved ()))"
  unfolding assms [symmetric]
  by (auto simp: diveInCommand_def Let_def set_getDiveableLayers)

theorem diveInCommand_cases_witness:
  "diveInCommand (sampleDoc [10]) =
     ([LogSuperselect ''key_dive_in'',
       Select (sampleDoc [10]) (OneLayer (Some (sampleLayer [10] 11))) None], Resolved ()) \<and>
   diveInCommand (sampleDoc [11]) =
     ([LogSuperselect ''key_edit'', EditLayer (sampleDoc [11]) (sampleLayer [11] 11) None None],
      Resolved ()) \<and>
   diveInCommand (sampleDoc [13]) = ([], Resolved ()) \<and>
   diveInCommand (sampleDoc [11, 12]) = ([], Resolved ()) \<and>
   diveInCommand (sampleDoc []) = ([], Resolved ())"
  using diveInCommand_cases [OF sample_diveable(1)]
    diveInCommand_cases [OF sample_diveable(2), of "sampleLayer [11] 11"]
    diveInCommand_cases [OF sample_diveable(3), of "sampleLayer [13] 13"]
    diveInCommand_cases [OF sample_diveable(4)]
    diveInCommand_cases [OF sample_diveable(5)]
  by simp

text \<open>
  C5 says that backOutCommand takes no action when no selected layer has a parent and
  noDeselect is true. With the root group 10 selected in the sample document it selects
  the group again.
\<close>

theorem backOutCommand_counterexample:
  "tree_selected (doc_layers (sampleDoc [10])) = [sampleLayer [10] 10] \<and>
   tree_parent (doc_layers (sampleDoc [10])) (sampleLayer [10] 10) = None \<and>
   backOutCommand (sampleDoc [10]) True =
     ([LogSuperselect ''key_backout'',
       Select (sampleDoc [10]) (LayerList [Some (sampleLayer [10] 10)]) None], Resolved ())"
  using sample_parents(5) by (simp add: backOutCommand_def Let_def)

text \<open>
  C5, amended. For every document, backOutCommand selects exactly the set of parents of
  the currently selected layers, each once; when noDeselect is true, a selected layer
  with no parent is kept in the resulting selection instead of being dropped; when no
  selected layer has a parent and noDeselect is false, all layers are deselected; when
  no selected layer has a parent and noDeselect is true, the selected layers are
  selected again, and no action is taken only if the selection is empty.
\<close>

theorem backOutCommand_cases:
  assumes "getSelectedLayerParents (doc_layers doc) noDeselect = backOutParents"
    and "tree_selected (doc_layers doc) = selected"
  shows
    "set backOutParents =
       {p. \<exists>l \<in> set selected. tree_parent (doc_layers doc) l = Some p} \<union>
       (if noDeselect then {l \<in> set selected. tree_parent (doc_layers doc) l = None} else {}) \<and>
     distinct backOutParents \<and>
     (backOutParents \<noteq> [] \<longrightarrow>
        backOutCommand doc noDeselect =
          ([LogSuperselect ''key_backout'',
            Select doc (LayerList (map Some backOutParents)) None], Resolved ())) \<and>
     ((\<forall>l \<in> set selected. tree_parent (doc_layers doc) l = None) \<and> \<not> noDeselect \<longrightarrow>
        backOutCommand doc noDeselect =
          ([LogSuperselect ''key_backout_deselect'', DeselectAll doc], Resolved ())) \<and>
     (selected = [] \<and> noDeselect \<longrightarrow> backOutCommand doc noDeselect = ([], Resolved ())) \<and>
     (selected \<noteq> [] \<and> (\<forall>l \<in> set selected. tree_parent (doc_layers doc) l = None) \<and>
      noDeselect \<longrightarrow>
        set backOutParents = set selected \<and>
        backOutCommand doc noDeselect =
          ([LogSuperselect ''key_backout'',
            Select doc (LayerList (map Some backOutParents)) None], Resolved ()))"
proof -
  have members: "set backOutParents =
       {p. \<exists>l \<in> set selected. tree_parent (doc_layers doc) l = Some p} \<union>
       (if noDeselect then {l \<in> set selected. tree_parent (doc_layers doc) l = None} else {})"
    using assms set_getSelectedLayerParents by blast
  have dist: "distinct backOutParents"
    using assms distinct_getSelectedLayerParents by blast
  have none: "(\<forall>l \<in> set selected. tree_parent (doc_layers doc) l = None) \<and> \<not> noDeselect
      \<Longrightarrow> backOutParents = []"
    using members by auto
  have empty: "selected = [] \<Longrightarrow> backOutParents = []"
    using members by (auto split: if_splits)
  have kept: "selected \<noteq> [] \<and> (\<forall>l \<in> set selected. tree_parent (doc_layers doc) l = None) \<and>
      noDeselect \<longrightarrow> set backOutParents = set selected \<and> backOutParents \<noteq> []"
  proof
    assume a: "selected \<noteq> [] \<and> (\<forall>l \<in> set selected. tree_parent (doc_layers doc) l = None) \<and>
      noDeselect"
    then have "set backOutParents = set selected" using members by auto
    moreover have "set selected \<noteq> {}" using a by simp
    ultimately show "set backOutParents = set selected \<and> backOutParents \<noteq> []" by auto
  qed
  have run: "backOutCommand doc noDeselect =
      (if backOutParents \<noteq> [] then
         ([LogSuperselect ''key_backout'',
           Select doc (LayerList (map Some backOutParents)) None], Resolved ())
       else if \<not> noDeselect then
         ([LogSuperselect ''key_backout_deselect'', DeselectAll doc], Resolved ())
       else ([], Resolved ()))"
    using assms(1) by (simp add: backOutCommand_def Let_def)
  have fired: "backOutParents \<noteq> [] \<longrightarrow>
        backOutCommand doc noDeselect =
          ([LogSuperselect ''key_backout'',
            Select doc (LayerList (map Some backOutParents)) None], Resolved ())"
    by (simp add: run)
  have deselected: "(\<forall>l \<in> set selected. tree_parent (doc_layers doc) l = None) \<and> \<not> noDeselect \<longrightarrow>
        backOutCommand doc noDeselect =
          ([LogSuperselect ''key_backout_deselect'', DeselectAll doc], Resolved ())"
    using none run by presburger
  have idle: "selected = [] \<and> noDeselect \<longrightarrow> backOutCommand doc noDeselect = ([], Resolved ())"
    using empty run by presburger
  have roots: "selected \<noteq> [] \<and> (\<forall>l \<in> set selected. tree_parent (doc_layers doc) l = None) \<and>
      noDeselect \<longrightarrow>
        set backOutParents = set selected \<and>
        backOutCommand doc noDeselect =
          ([LogSuperselect ''key_backout'',
            Select doc (LayerList (map Some backOutParents)) None], Resolved ())"
    using kept fired by blast
  show ?thesis
    by (intro conjI members dist fired deselected idle roots)
qed

theorem backOutCommand_cases_witness:
  "backOutCommand (sampleDoc [11, 12]) False =
     ([LogSuperselect ''key_backout'',
       Select (sampleDoc [11, 12]) (LayerList [Some (sampleLayer [11, 12] 10)]) None],
      Resolved ()) \<and>
   backOutCommand (sampleDoc [10]) False =
     ([LogSuperselect ''key_backout_deselect'', DeselectAll (sampleDoc [10])], Resolved ()) \<and>
   backOutCommand (sampleDoc []) True = ([], Resolved ()) \<and>
   backOutCommand (sampleDoc [10, 13]) True =
     ([LogSuperselect ''key_backout'',
       Select (sampleDoc [10, 13])
         (LayerList [Some (sampleLayer [10, 13] 10), Some (sampleLayer [10, 13] 13)]) None],
      Resolved ())"
  using backOutCommand_cases [OF sample_parents(1) refl]
    backOutCommand_cases [OF sample_parents(2) refl]
    backOutCommand_cases [OF sample_parents(3) refl]
    backOutCommand_cases [OF sample_parents(4) refl]
  by simp

subsection \<open>Double click\<close>

text \<open>
  The branches of doubleClickCommand, with the hit IDs the hit test resolved with. The
  target IDs are the hit IDs, in the order of the hit list, of the covered
  superSelectable children of the selected layers (of the top-level layers when the
  selection is empty); the IDs below the selection are the IDs of the covered, unlocked,
  non-group-end layers that are not ancestors of the selection. The layer to select is
  the one byID finds for the last ID.
\<close>

lemma doubleClickCommand_cases:
  assumes "transformWindowToCanvas e x y = (cx, cy)"
    and "getHitLayerIDs e (doc_id doc) cx cy = Resolved hitLayerIDs"
    and "tree_selected (doc_layers doc) = selected"
    and "getDiveableLayers (doc_layers doc)
           (if selected = [] then tree_top (doc_layers doc) else selected) = selectableLayers"
    and "getContainingLayerBounds e (doc_layers doc) cx cy = coveredLayers"
    and "intersection hitLayerIDs (pluck (intersection selectableLayers coveredLayers) layer_id) =
           targetLayerIDs"
    and "getLayersBelowCurrentSelection e (doc_layers doc) coveredLayers = underLayerIDs"
  shows
    "set selectableLayers =
       {c. layer_superSelectable c \<and>
           (\<exists>p \<in> set (if selected = [] then tree_top (doc_layers doc) else selected).
              c \<in> set (tree_children (doc_layers doc) p))} \<and>
     targetLayerIDs =
       filter (\<lambda>i. i \<in> layer_id ` (set selectableLayers \<inter> set coveredLayers)) hitLayerIDs \<and>
     set underLayerIDs =
       layer_id ` {l \<in> set coveredLayers. \<not> layer_locked l \<and> layer_kind l \<noteq> GROUPEND \<and>
                     \<not> (\<exists>s \<in> set selected. l \<in> set (tree_ancestors (doc_layers doc) s))} \<and>
     (selectableLayers \<noteq> [] \<and> targetLayerIDs \<noteq> [] \<longrightarrow>
        doubleClickCommand e doc x y =
          ([LogSuperselect ''double_click_select'',
            Select doc (OneLayer (tree_byID (doc_layers doc) (last targetLayerIDs))) None],
           Resolved ())) \<and>
     (selectableLayers = [] \<and>
      find (\<lambda>layer. layer_id layer \<in> set hitLayerIDs) selected = Some clickedLayer \<longrightarrow>
        doubleClickCommand e doc x y =
          ([Select doc (OneLayer (Some clickedLayer)) None,
            LogSuperselect ''double_click_edit'',
            EditLayer doc clickedLayer (Some x) (Some y)], Resolved ())) \<and>
     (selectableLayers \<noteq> [] \<and> targetLayerIDs = [] \<and> underLayerIDs \<noteq> [] \<longrightarrow>
        doubleClickCommand e doc x y =
          ([Select doc (OneLayer (tree_byID (doc_layers doc) (last underLayerIDs))) None],
           Resolved ())) \<and>
     (selectableLayers = [] \<and>
      find (\<lambda>layer. layer_id layer \<in> set hitLayerIDs) selected = None \<longrightarrow>
        doubleClickCommand e doc x y = ([], Resolved ())) \<and>
     (selectableLayers \<noteq> [] \<and> targetLayerIDs = [] \<and> underLayerIDs = [] \<longrightarrow>
        doubleClickCommand e doc x y = ([], Resolved ()))"
proof -
  have children: "set selectableLayers =
       {c. layer_superSelectable c \<and>
           (\<exists>p \<in> set (if selected = [] then tree_top (doc_layers doc) else selected).
              c \<in> set (tree_children (doc_layers doc) p))}"
    using assms(4) set_getDiveableLayers by blast
  have targets: "targetLayerIDs =
       filter (\<lambda>i. i \<in> layer_id ` (set selectableLayers \<inter> set coveredLayers)) hitLayerIDs"
  proof -
    have "set (pluck (intersection selectableLayers coveredLayers) layer_id) =
        layer_id ` (set selectableLayers \<inter> set coveredLayers)"
      by (auto simp: pluck_def intersection_def)
    then show ?thesis
      using assms(6) by (simp add: intersection_def)
  qed
  have under: "set underLayerIDs =
       layer_id ` {l \<in> set coveredLayers. \<not> layer_locked l \<and> layer_kind l \<noteq> GROUPEND \<and>
                     \<not> (\<exists>s \<in> set selected. l \<in> set (tree_ancestors (doc_layers doc) s))}"
    using assms(3,7) set_getLayersBelowCurrentSelection by blast
  have run: "doubleClickCommand e doc x y =
      (if selectableLayers = [] then
         (case find (\<lambda>layer. layer_id layer \<in> set hitLayerIDs) selected of
            Some clickedLayer \<Rightarrow>
              ([Select doc (OneLayer (Some clickedLayer)) None,
                LogSuperselect ''double_click_edit'',
                EditLayer doc clickedLayer (Some x) (Some y)], Resolved ())
          | None \<Rightarrow> ([], Resolved ()))
       else if targetLayerIDs \<noteq> [] then
         ([LogSuperselect ''double_click_select'',
           Select doc (OneLayer (tree_byID (doc_layers doc) (last targetLayerIDs))) None],
          Resolved ())
       else if underLayerIDs \<noteq> [] then
         ([Select doc (OneLayer (tree_byID (doc_layers doc) (last underLayerIDs))) None],
          Resolved ())
       else ([], Resolved ()))"
    unfolding assms(7) [symmetric] assms(6) [symmetric] assms(4) [symmetric]
      assms(5) [symmetric] assms(3) [symmetric]
    by (simp add: doubleClickCommand_handler [OF assms(1,2)] doubleClickHandler_def Let_def)
  show ?thesis
    by (intro conjI children targets under) (simp_all add: run)
qed

lemma doubleClickCommand_cases_sample:
  "doubleClickCommand (sampleEnv (Resolved (layersHit [10, 11]))) (sampleDoc [10]) (Finite 1) (Finite 1) =
     ([LogSuperselect ''double_click_select'',
       Select (sampleDoc [10]) (OneLayer (Some (sampleLayer [10] 11))) None], Resolved ()) \<and>
   doubleClickCommand (sampleEnv (Resolved (layersHit [10, 11]))) (sampleDoc [11]) (Finite 1) (Finite 1) =
     ([Select (sampleDoc [11]) (OneLayer (Some (sampleLayer [11] 11))) None,
       LogSuperselect ''double_click_edit'',
       EditLayer (sampleDoc [11]) (sampleLayer [11] 11) (Some (Finite 1)) (Some (Finite 1))],
      Resolved ()) \<and>
   doubleClickCommand (sampleEnv (Resolved (layersHit [14]))) (sampleDoc [10]) (Finite 50) (Finite 39) =
     ([Select (sampleDoc [10]) (OneLayer (Some (sampleLayer [10] 14))) None], Resolved ()) \<and>
   doubleClickCommand (sampleEnv (Resolved (layersHit [14]))) (sampleDoc [11]) (Finite 50) (Finite 50) =
     ([], Resolved ()) \<and>
   doubleClickCommand (sampleEnv (Resolved (layersHit [10]))) (sampleDoc [10]) (Finite 8) (Finite 1) =
     ([], Resolved ())"
  using
    doubleClickCommand_cases [where e = "sampleEnv (Resolved (layersHit [10, 11]))"
      and doc = "sampleDoc [10]" and x = "Finite 1" and y = "Finite 1",
      OF sampleEnv_fields(1) sample_hit refl refl refl refl refl,
      THEN conjunct2, THEN conjunct2, THEN conjunct2]
    doubleClickCommand_cases [where e = "sampleEnv (Resolved (layersHit [10, 11]))"
      and doc = "sampleDoc [11]" and x = "Finite 1" and y = "Finite 1"
      and clickedLayer = "sampleLayer [11] 11",
      OF sampleEnv_fields(1) sample_hit refl refl refl refl refl,
      THEN conjunct2, THEN conjunct2, THEN conjunct2]
    doubleClickCommand_cases [where e = "sampleEnv (Resolved (layersHit [14]))"
      and doc = "sampleDoc [10]" and x = "Finite 50" and y = "Finite 39",
      OF sampleEnv_fields(1) sample_hit refl refl refl refl refl,
      THEN conjunct2, THEN conjunct2, THEN conjunct2]
    doubleClickCommand_cases [where e = "sampleEnv (Resolved (layersHit [14]))"
      and doc = "sampleDoc [11]" and x = "Finite 50" and y = "Finite 50",
      OF sampleEnv_fields(1) sample_hit refl refl refl refl refl,
      THEN conjunct2, THEN conjunct2, THEN conjunct2]
    doubleClickCommand_cases [where e = "sampleEnv (Resolved (layersHit [10]))"
      and doc = "sampleDoc [10]" and x = "Finite 8" and y = "Finite 1",
      OF sampleEnv_fields(1) sample_hit refl refl refl refl refl,
      THEN conjunct2, THEN conjunct2, THEN conjunct2]
  by (simp add: sample_covered_1_1 sample_covered_50_39 sample_covered_50_50
      sample_covered_8_1 sample_below getDiveableLayers_def intersection_def pluck_def
      del: set_filter set_map)

text \<open>
  C4. For every double click the claim has the command select, when diveable children
  exist but none was clicked, the top layer below the current selection among the
  covered, unlocked, non-group-end layers that are not ancestors of the selection. The
  command takes \<open>last()\<close> of the set of their IDs and calls it \<open>topLayerID\<close>; a set of more
  than eight IDs iterates by hash. On the stack document, double clicked at (5, 5) with
  no child of the selected group under the point: with the nine layers 21, 22, 23, 28,
  24, 25, 26, 27, 20 in the stack the command selects layer 28, which stands in the
  middle of the stack; with the first of them taken away it selects layer 20, the last
  of the stack.
\<close>

theorem doubleClickCommand_below_selection:
  "doubleClickCommand (sampleEnv (Resolved (layersHit [21, 22, 23, 28, 24, 25, 26, 27, 20])))
     (stackDoc [21, 22, 23, 28, 24, 25, 26, 27, 20]) (Finite 5) (Finite 5) =
     ([Select (stackDoc [21, 22, 23, 28, 24, 25, 26, 27, 20])
         (OneLayer (Some (stackLayer 28))) None], Resolved ()) \<and>
   doubleClickCommand (sampleEnv (Resolved (layersHit [22, 23, 28, 24, 25, 26, 27, 20])))
     (stackDoc [22, 23, 28, 24, 25, 26, 27, 20]) (Finite 5) (Finite 5) =
     ([Select (stackDoc [22, 23, 28, 24, 25, 26, 27, 20])
         (OneLayer (Some (stackLayer 20))) None], Resolved ())"
  by (simp add: doubleClickCommand_def doubleClickHandler_def getDiveableLayers_def
      stack_covered stack_below intersection_def pluck_def Let_def del: set_filter set_map)

subsection \<open>Next sibling\<close>

text \<open>
  Where the first selected layer (or the first top-level layer when the selection is
  empty) is one of its own superSelectable siblings, at position p among the n of them,
  nextSiblingCommand selects exactly one layer: the sibling at position (p + 1) mod n,
  or (p - 1) mod n when cycleBack is true, so that the cycle wraps around in both
  directions. The remainder \<open>%\<close> followed by the negative-index \<open>get\<close> is the mathematical
  \<open>mod\<close>.
\<close>

lemma nextSiblingCommand_cycle:
  assumes "tree_all (doc_layers doc) \<noteq> []"
    and "(if tree_selected (doc_layers doc) = [] then tree_top (doc_layers doc)
          else tree_selected (doc_layers doc)) = layer # others"
    and "filter layer_superSelectable (tree_siblings (doc_layers doc) layer) = siblings"
    and "layer \<in> set siblings"
  shows
    "nextSiblingCommand doc cycleBack =
       ([LogSuperselect ''key_next_sibling'',
         Select doc
           (LayerList
              [Some (siblings !
                 nat ((indexOf siblings layer + (if cycleBack then - 1 else 1)) mod
                      int (length siblings)))])
           None], Resolved ()) \<and>
     siblings ! nat (indexOf siblings layer) = layer \<and>
     (indexOf siblings layer = int (length siblings) - 1 \<and> \<not> cycleBack \<longrightarrow>
        nextSiblingCommand doc cycleBack =
          ([LogSuperselect ''key_next_sibling'',
            Select doc (LayerList [Some (hd siblings)]) None], Resolved ())) \<and>
     (indexOf siblings layer = 0 \<and> cycleBack \<longrightarrow>
        nextSiblingCommand doc cycleBack =
          ([LogSuperselect ''key_next_sibling'',
            Select doc (LayerList [Some (last siblings)]) None], Resolved ()))"
proof -
  let ?n = "int (length siblings)"
  let ?step = "if cycleBack then - 1 else 1 :: int"
  have nonempty: "siblings \<noteq> []" using assms(4) by auto
  have n: "0 < ?n" using nonempty by simp
  have one: "take 1 (if tree_selected (doc_layers doc) = [] then tree_top (doc_layers doc)
          else tree_selected (doc_layers doc)) = [layer]"
    by (simp add: assms(2))
  have next_siblings: "getNextSiblingsForSelectedLayers (doc_layers doc) cycleBack =
      [List_get siblings (js_rem (indexOf siblings layer + ?step) ?n)]"
    using assms(1,3) nonempty one by (simp add: getNextSiblingsForSelectedLayers_def Let_def)
  have run: "nextSiblingCommand doc cycleBack =
       ([LogSuperselect ''key_next_sibling'',
         Select doc
           (LayerList [Some (siblings ! nat ((indexOf siblings layer + ?step) mod ?n))])
           None], Resolved ())"
    using next_siblings List_get_js_rem [OF nonempty]
    by (simp add: nextSiblingCommand_def Let_def)
  have "nat ((?n - 1 + 1) mod ?n) = 0" by simp
  then have forward: "indexOf siblings layer = ?n - 1 \<and> \<not> cycleBack \<longrightarrow>
        nextSiblingCommand doc cycleBack =
          ([LogSuperselect ''key_next_sibling'',
            Select doc (LayerList [Some (hd siblings)]) None], Resolved ())"
    using run nonempty by (auto simp: hd_conv_nth)
  have "(- 1) mod ?n = ?n - 1" using n by (simp add: zmod_minus1)
  then have "nat ((0 - 1) mod ?n) = length siblings - 1" using n by simp
  then have backward: "indexOf siblings layer = 0 \<and> cycleBack \<longrightarrow>
        nextSiblingCommand doc cycleBack =
          ([LogSuperselect ''key_next_sibling'',
            Select doc (LayerList [Some (last siblings)]) None], Resolved ())"
    using run nonempty by (auto simp: last_conv_nth)
  have position: "siblings ! nat (indexOf siblings layer) = layer"
    using indexOf_member [OF assms(4)] by simp
  show ?thesis
    by (intro conjI run position forward backward)
qed

lemma nextSiblingCommand_cycle_sample:
  "nextSiblingCommand (sampleDoc [11]) False =
     ([LogSuperselect ''key_next_sibling'',
       Select (sampleDoc [11]) (LayerList [Some (sampleLayer [11] 12)]) None], Resolved ()) \<and>
   nextSiblingCommand (sampleDoc [12]) False =
     ([LogSuperselect ''key_next_sibling'',
       Select (sampleDoc [12]) (LayerList [Some (sampleLayer [12] 11)]) None], Resolved ()) \<and>
   nextSiblingCommand (sampleDoc [11]) True =
     ([LogSuperselect ''key_next_sibling'',
       Select (sampleDoc [11]) (LayerList [Some (sampleLayer [11] 12)]) None], Resolved ()) \<and>
   nextSiblingCommand (sampleDoc []) False =
     ([LogSuperselect ''key_next_sibling'',
       Select (sampleDoc []) (LayerList [Some (sampleLayer [] 14)]) None], Resolved ())"
  using
    nextSiblingCommand_cycle [where doc = "sampleDoc [11]" and layer = "sampleLayer [11] 11"
      and others = "[]" and siblings = "[sampleLayer [11] 11, sampleLayer [11] 12]"
      and cycleBack = False, THEN conjunct1]
    nextSiblingCommand_cycle [where doc = "sampleDoc [12]" and layer = "sampleLayer [12] 12"
      and others = "[]" and siblings = "[sampleLayer [12] 11, sampleLayer [12] 12]"
      and cycleBack = False, THEN conjunct2, THEN conjunct2, THEN conjunct1]
    nextSiblingCommand_cycle [where doc = "sampleDoc [11]" and layer = "sampleLayer [11] 11"
      and others = "[]" and siblings = "[sampleLayer [11] 11, sampleLayer [11] 12]"
      and cycleBack = True, THEN conjunct2, THEN conjunct2, THEN conjunct2]
    nextSiblingCommand_cycle [where doc = "sampleDoc []" and layer = "sampleLayer [] 10"
      and others = "[sampleLayer [] 13, sampleLayer [] 14]"
      and siblings = "[sampleLayer [] 10, sampleLayer [] 14]"
      and cycleBack = False, THEN conjunct1]
  by (simp add: Let_def)

text \<open>
  C9. For every layer tree with a non-empty layer list the claim has nextSiblingCommand
  select exactly one layer, the next superSelectable sibling, or the previous one when
  cycleBack is true. It does not where the layer considered is not superSelectable
  itself, as a locked layer selected from the panel. In the document of the locked
  layer alone the layer has no superSelectable sibling: the index is guarded to 0 for
  the empty list, but the remainder by the size zero is NaN, \<open>get\<close> returns undefined,
  and the command transfers to \<open>select\<close> with a list whose one element is no layer, in
  either direction. In the sample document with the locked layer 13 selected, between
  its siblings 10 and 14, the command selects layer 10 forward and backward.
\<close>

theorem nextSiblingCommand_no_sibling:
  "tree_all (doc_layers loneLockedDoc) = [sampleLayer [13] 13] \<and>
   tree_selected (doc_layers loneLockedDoc) = [sampleLayer [13] 13] \<and>
   filter layer_superSelectable (tree_siblings (doc_layers loneLockedDoc) (sampleLayer [13] 13)) = [] \<and>
   nextSiblingCommand loneLockedDoc False =
     ([LogSuperselect ''key_next_sibling'', Select loneLockedDoc (LayerList [None]) None],
      Resolved ()) \<and>
   nextSiblingCommand loneLockedDoc True =
     ([LogSuperselect ''key_next_sibling'', Select loneLockedDoc (LayerList [None]) None],
      Resolved ()) \<and>
   tree_siblings (doc_layers (sampleDoc [13])) (sampleLayer [13] 13) =
     [sampleLayer [13] 10, sampleLayer [13] 13, sampleLayer [13] 14] \<and>
   nextSiblingCommand (sampleDoc [13]) False =
     ([LogSuperselect ''key_next_sibling'',
       Select (sampleDoc [13]) (LayerList [Some (sampleLayer [13] 10)]) None], Resolved ()) \<and>
   nextSiblingCommand (sampleDoc [13]) True =
     ([LogSuperselect ''key_next_sibling'',
       Select (sampleDoc [13]) (LayerList [Some (sampleLayer [13] 10)]) None], Resolved ())"
  by (simp add: nextSiblingCommand_def getNextSiblingsForSelectedLayers_def js_rem_def
      List_get_def)

subsection \<open>Edit mode\<close>

text \<open>
  C10 says that editLayerCommand, invoked without coordinates, uses the center of the
  layer's bounds. It uses what \<open>(right + left) / 2\<close> and \<open>(top + bottom) / 2\<close> are in
  doubles. For a vector layer that spans from \<open>2 ^ 1022\<close> to \<open>3 * 2 ^ 1022\<close>, all of
  them doubles, the centre is at \<open>2 ^ 1023\<close>, but the sum of the edges, \<open>2 ^ 1024\<close>, is
  beyond the doubles: the mouse event is posted at infinity.
\<close>

theorem editLayerCommand_counterexample:
  "(3 * 2 ^ 1022 + 2 ^ 1022) / 2 = (2 :: rat) ^ 1023 \<and>
   editLayerCommand (sampleEnv Rejected) (sampleDoc [])
     ((sampleLayer [] 11)\<lparr>layer_bounds := Some (sampleBox (2 ^ 1022) (3 * 2 ^ 1022))\<rparr>)
     None None =
     ([LogSuperselect ''edit_vector'', ToolSelect ''superselectVector'',
       PostEvent LEFT_MOUSE_DOWN PlusInfinity PlusInfinity], Resolved ())"
  by (simp add: editLayerCommand_def editLayerAtCenter_def editLayerAt_def in_range_def
      overflow_def)

text \<open>
  C10, amended. For every layer, editLayerCommand has an effect only for layers of kind
  VECTOR, TEXT, or SMARTOBJECT: for a background layer it resolves immediately with no
  action regardless of kind, for a layer of any other kind it resolves with no tool
  change or host call, and when invoked without coordinates (or with a coordinate that
  is zero or NaN) it uses the point whose coordinates are (right + left) / 2 and
  (top + bottom) / 2 of the layer's bounds as double arithmetic computes them, moved to
  window coordinates, which is the center of the bounds where the sums and the halvings
  are exact; it resolves with no action if the layer has no bounds. What the edit at a
  point issues for the three kinds is listed.
\<close>

theorem editLayerCommand_cases:
  "(layer_isBackground layer \<longrightarrow> editLayerCommand e doc layer x y = ([], Resolved ())) \<and>
   (layer_kind layer \<noteq> VECTOR \<and> layer_kind layer \<noteq> TEXT \<and> layer_kind layer \<noteq> SMARTOBJECT \<longrightarrow>
      editLayerCommand e doc layer x y = ([], Resolved ())) \<and>
   (fst (editLayerCommand e doc layer x y) \<noteq> [] \<longrightarrow>
      \<not> layer_isBackground layer \<and> layer_kind layer \<in> {VECTOR, TEXT, SMARTOBJECT}) \<and>
   ((x = None \<or> y = None \<or> x = Some (Finite 0) \<or> y = Some (Finite 0) \<or>
     x = Some NaN \<or> y = Some NaN) \<and> layer_bounds layer = None \<longrightarrow>
      editLayerCommand e doc layer x y = ([], Resolved ())) \<and>
   ((x = None \<or> y = None \<or> x = Some (Finite 0) \<or> y = Some (Finite 0) \<or>
     x = Some NaN \<or> y = Some NaN) \<and>
    \<not> layer_isBackground layer \<and> layer_bounds layer = Some b \<and>
    transformCanvasToWindow e
      (num_div e (num_add e (bounds_right b) (bounds_left b)) (Finite 2))
      (num_div e (num_add e (bounds_top b) (bounds_bottom b)) (Finite 2)) = (wx, wy) \<longrightarrow>
      editLayerCommand e doc layer x y = editLayerAt e layer wx wy) \<and>
   ((x = None \<or> y = None \<or> x = Some (Finite 0) \<or> y = Some (Finite 0) \<or>
     x = Some NaN \<or> y = Some NaN) \<and>
    \<not> layer_isBackground layer \<and>
    layer_bounds layer =
      Some \<lparr>bounds_left = Finite l, bounds_top = Finite t,
            bounds_right = Finite r, bounds_bottom = Finite bo\<rparr> \<and>
    num_add e (Finite r) (Finite l) = Finite (r + l) \<and>
    num_div e (Finite (r + l)) (Finite 2) = Finite ((r + l) / 2) \<and>
    num_add e (Finite t) (Finite bo) = Finite (t + bo) \<and>
    num_div e (Finite (t + bo)) (Finite 2) = Finite ((t + bo) / 2) \<and>
    transformCanvasToWindow e (Finite ((r + l) / 2)) (Finite ((t + bo) / 2)) = (cx, cy) \<longrightarrow>
      editLayerCommand e doc layer x y = editLayerAt e layer cx cy) \<and>
   (layer_kind layer = VECTOR \<longrightarrow>
      editLayerAt e layer wx wy =
        ([LogSuperselect ''edit_vector'', ToolSelect ''superselectVector'',
          PostEvent LEFT_MOUSE_DOWN wx wy], Resolved ())) \<and>
   (layer_kind layer = TEXT \<longrightarrow>
      editLayerAt e layer wx wy =
        ([LogSuperselect ''edit_text'', ToolSelect ''superselectType'',
          PostEvent LEFT_MOUSE_DOWN wx wy], Resolved ())) \<and>
   (layer_kind layer = SMARTOBJECT \<longrightarrow>
      editLayerAt e layer wx wy =
        (LogSuperselect ''edit_smart_object'' # Play_placedLayerEditContents #
           (if play_placedLayerEditContents e = Rejected then [] else [UpdateDocument]),
         Resolved ()))"
proof -
  let ?absent = "x = None \<or> y = None \<or> x = Some (Finite 0) \<or> y = Some (Finite 0) \<or>
     x = Some NaN \<or> y = Some NaN"
  have background: "layer_isBackground layer \<longrightarrow>
      editLayerCommand e doc layer x y = ([], Resolved ())"
    by (simp add: editLayerCommand_def)
  have other: "layer_kind layer \<noteq> VECTOR \<and> layer_kind layer \<noteq> TEXT \<and>
      layer_kind layer \<noteq> SMARTOBJECT \<longrightarrow> editLayerCommand e doc layer x y = ([], Resolved ())"
    using editLayerCommand_other by blast
  have only: "fst (editLayerCommand e doc layer x y) \<noteq> [] \<longrightarrow>
      \<not> layer_isBackground layer \<and> layer_kind layer \<in> {VECTOR, TEXT, SMARTOBJECT}"
    using background other by auto
  have at_center: "?absent \<and> \<not> layer_isBackground layer \<longrightarrow>
      editLayerCommand e doc layer x y = editLayerAtCenter e layer"
    using editLayerCommand_no_coordinates [of x y layer e doc] by blast
  have unbounded: "?absent \<and> layer_bounds layer = None \<longrightarrow>
      editLayerCommand e doc layer x y = ([], Resolved ())"
    using background at_center by (auto simp: editLayerAtCenter_def)
  have center: "?absent \<and> \<not> layer_isBackground layer \<and> layer_bounds layer = Some b \<and>
    transformCanvasToWindow e
      (num_div e (num_add e (bounds_right b) (bounds_left b)) (Finite 2))
      (num_div e (num_add e (bounds_top b) (bounds_bottom b)) (Finite 2)) = (wx, wy) \<longrightarrow>
      editLayerCommand e doc layer x y = editLayerAt e layer wx wy"
    using at_center by (auto simp: editLayerAtCenter_def Let_def)
  have exact: "?absent \<and> \<not> layer_isBackground layer \<and>
    layer_bounds layer =
      Some \<lparr>bounds_left = Finite l, bounds_top = Finite t,
            bounds_right = Finite r, bounds_bottom = Finite bo\<rparr> \<and>
    num_add e (Finite r) (Finite l) = Finite (r + l) \<and>
    num_div e (Finite (r + l)) (Finite 2) = Finite ((r + l) / 2) \<and>
    num_add e (Finite t) (Finite bo) = Finite (t + bo) \<and>
    num_div e (Finite (t + bo)) (Finite 2) = Finite ((t + bo) / 2) \<and>
    transformCanvasToWindow e (Finite ((r + l) / 2)) (Finite ((t + bo) / 2)) = (cx, cy) \<longrightarrow>
      editLayerCommand e doc layer x y = editLayerAt e layer cx cy"
    using at_center by (auto simp: editLayerAtCenter_def Let_def)
  have vector: "layer_kind layer = VECTOR \<longrightarrow>
      editLayerAt e layer wx wy =
        ([LogSuperselect ''edit_vector'', ToolSelect ''superselectVector'',
          PostEvent LEFT_MOUSE_DOWN wx wy], Resolved ())"
    by (simp add: editLayerAt_def)
  have text_kind: "layer_kind layer = TEXT \<longrightarrow>
      editLayerAt e layer wx wy =
        ([LogSuperselect ''edit_text'', ToolSelect ''superselectType'',
          PostEvent LEFT_MOUSE_DOWN wx wy], Resolved ())"
    by (simp add: editLayerAt_def)
  have smart: "layer_kind layer = SMARTOBJECT \<longrightarrow>
      editLayerAt e layer wx wy =
        (LogSuperselect ''edit_smart_object'' # Play_placedLayerEditContents #
           (if play_placedLayerEditContents e = Rejected then [] else [UpdateDocument]),
         Resolved ())"
    by (cases "play_placedLayerEditContents e") (simp_all add: editLayerAt_def)
  show ?thesis
    by (intro conjI background other only unbounded center exact vector text_kind smart)
qed

theorem editLayerCommand_cases_witness:
  "editLayerCommand (sampleEnv Rejected) (sampleDoc [])
     ((sampleLayer [] 11)\<lparr>layer_isBackground := True\<rparr>) (Some (Finite 1)) (Some (Finite 1)) =
     ([], Resolved ()) \<and>
   editLayerCommand (sampleEnv Rejected) (sampleDoc []) (sampleLayer [] 10)
     (Some (Finite 1)) (Some (Finite 1)) = ([], Resolved ()) \<and>
   editLayerCommand (sampleEnv Rejected) (sampleDoc [])
     ((sampleLayer [] 12)\<lparr>layer_bounds := None\<rparr>) None None = ([], Resolved ()) \<and>
   editLayerCommand (sampleEnv Rejected) (sampleDoc []) (sampleLayer [] 11) None None =
     ([LogSuperselect ''edit_vector'', ToolSelect ''superselectVector'',
       PostEvent LEFT_MOUSE_DOWN (Finite (5 / 2)) (Finite (5 / 2))], Resolved ()) \<and>
   editLayerCommand (sampleEnv Rejected) (sampleDoc []) (sampleLayer [] 12)
     None (Some (Finite 3)) =
     ([LogSuperselect ''edit_text'', ToolSelect ''superselectType'',
       PostEvent LEFT_MOUSE_DOWN (Finite 7) (Finite 7)], Resolved ()) \<and>
   editLayerCommand (sampleEnv Rejected) (sampleDoc []) (sampleLayer [] 13) None None =
     ([LogSuperselect ''edit_smart_object'', Play_placedLayerEditContents, UpdateDocument],
      Resolved ())"
  using
    editLayerCommand_cases [where layer = "(sampleLayer [] 11)\<lparr>layer_isBackground := True\<rparr>"
      and e = "sampleEnv Rejected" and doc = "sampleDoc []"
      and x = "Some (Finite 1)" and y = "Some (Finite 1)"]
    editLayerCommand_cases [where layer = "sampleLayer [] 10"
      and e = "sampleEnv Rejected" and doc = "sampleDoc []"
      and x = "Some (Finite 1)" and y = "Some (Finite 1)"]
    editLayerCommand_cases [where layer = "(sampleLayer [] 12)\<lparr>layer_bounds := None\<rparr>"
      and e = "sampleEnv Rejected" and doc = "sampleDoc []" and x = None and y = None]
    editLayerCommand_cases [where layer = "sampleLayer [] 11"
      and e = "sampleEnv Rejected" and doc = "sampleDoc []" and x = None and y = None
      and b = "sampleBox 0 5" and wx = "Finite (5 / 2)" and wy = "Finite (5 / 2)"
      and l = 0 and t = 0 and r = 5 and bo = 5
      and cx = "Finite (5 / 2)" and cy = "Finite (5 / 2)"]
    editLayerCommand_cases [where layer = "sampleLayer [] 12"
      and e = "sampleEnv Rejected" and doc = "sampleDoc []" and x = None
      and y = "Some (Finite 3)"
      and b = "sampleBox 4 10" and wx = "Finite 7" and wy = "Finite 7"]
    editLayerCommand_cases [where layer = "sampleLayer [] 13"
      and e = "sampleEnv Rejected" and doc = "sampleDoc []" and x = None and y = None
      and b = "sampleBox 20 30" and wx = "Finite 25" and wy = "Finite 25"]
  by (simp add: sampleBox_def)

end
